theory Spec2Isabelle
  imports Complex_Main "HOL-Library.Char_ord" "HOL-Library.List_Lexorder"
    "HOL-Library.Product_Lexorder" "HOL-Library.Sublist"
begin

section \<open>The product matching engine of \<^verbatim>\<open>ai_matching/product_matcher.py\<close>\<close>

text \<open>
  The development embeds the class \<^verbatim>\<open>ProductMatcher\<close>. Conventions:
  \<^item> a Python \<^verbatim>\<open>str\<close> is a \<^typ>\<open>string\<close> and a \<^typ>\<open>char\<close> is a code point below 256; the
    character classes and the case mapping are those of Python on these code points;
  \<^item> a Python \<^verbatim>\<open>float\<close> is a \<^typ>\<open>real\<close>: the arithmetic is exact, rounding, infinities
    and NaN are not part of the model;
  \<^item> a missing dictionary key read with \<^verbatim>\<open>d[k]\<close> is the error value \<open>KeyError k\<close>.
\<close>

subsection \<open>Strings\<close>

definition ascii_upper :: string where
  "ascii_upper = ''ABCDEFGHIJKLMNOPQRSTUVWXYZ''"

definition ascii_lower :: string where
  "ascii_lower = ''abcdefghijklmnopqrstuvwxyz''"

text \<open>The capital letters from \<^verbatim>\<open>\xc0\<close> to \<^verbatim>\<open>\xde\<close>, without the sign \<^verbatim>\<open>\xd7\<close>.\<close>

definition latin_upper :: string where
  "latin_upper =
     [CHR 0xC0, CHR 0xC1, CHR 0xC2, CHR 0xC3, CHR 0xC4, CHR 0xC5, CHR 0xC6, CHR 0xC7,
      CHR 0xC8, CHR 0xC9, CHR 0xCA, CHR 0xCB, CHR 0xCC, CHR 0xCD, CHR 0xCE, CHR 0xCF,
      CHR 0xD0, CHR 0xD1, CHR 0xD2, CHR 0xD3, CHR 0xD4, CHR 0xD5, CHR 0xD6, CHR 0xD8,
      CHR 0xD9, CHR 0xDA, CHR 0xDB, CHR 0xDC, CHR 0xDD, CHR 0xDE]"

text \<open>Their small letters, in the same order.\<close>

definition latin_lower :: string where
  "latin_lower =
     [CHR 0xE0, CHR 0xE1, CHR 0xE2, CHR 0xE3, CHR 0xE4, CHR 0xE5, CHR 0xE6, CHR 0xE7,
      CHR 0xE8, CHR 0xE9, CHR 0xEA, CHR 0xEB, CHR 0xEC, CHR 0xED, CHR 0xEE, CHR 0xEF,
      CHR 0xF0, CHR 0xF1, CHR 0xF2, CHR 0xF3, CHR 0xF4, CHR 0xF5, CHR 0xF6, CHR 0xF8,
      CHR 0xF9, CHR 0xFA, CHR 0xFB, CHR 0xFC, CHR 0xFD, CHR 0xFE]"

definition char_lower :: "char \<Rightarrow> char" where
  "char_lower c =
     (case map_of (zip (ascii_upper @ latin_upper) (ascii_lower @ latin_lower)) c of
        None \<Rightarrow> c
      | Some d \<Rightarrow> d)"

text \<open>\<^verbatim>\<open>s.lower()\<close>\<close>

definition str_lower :: "string \<Rightarrow> string" where
  "str_lower s = map char_lower s"

text \<open>The regular expression class \<^verbatim>\<open>\d\<close>.\<close>

definition is_digit :: "char \<Rightarrow> bool" where
  "is_digit c = (c \<in> set ''0123456789'')"

text \<open>
  The class \<^verbatim>\<open>\s\<close>, which is also the whitespace of \<^verbatim>\<open>str.split()\<close> and
  \<^verbatim>\<open>str.strip()\<close>: space, tab, line feed, vertical tab, form feed, carriage return,
  the four separators \<^verbatim>\<open>\x1c\<close> to \<^verbatim>\<open>\x1f\<close>, next line \<^verbatim>\<open>\x85\<close> and the no-break space
  \<^verbatim>\<open>\xa0\<close>.
\<close>

definition is_space :: "char \<Rightarrow> bool" where
  "is_space c = (c \<in> set [CHR '' '', CHR 0x09, CHR 0x0A, CHR 0x0B, CHR 0x0C, CHR 0x0D,
                             CHR 0x1C, CHR 0x1D, CHR 0x1E, CHR 0x1F, CHR 0x85, CHR 0xA0])"

text \<open>\<^verbatim>\<open>sub in s\<close> on strings: \<open>sub\<close> occurs in \<open>s\<close> as a contiguous run.\<close>

fun str_in :: "string \<Rightarrow> string \<Rightarrow> bool" where
  "str_in sub [] = (sub = [])"
| "str_in sub (c # cs) = (prefix sub (c # cs) \<or> str_in sub cs)"

subsection \<open>Sizes\<close>

text \<open>
  The dataclass \<^verbatim>\<open>SizeInfo\<close>; its field \<^verbatim>\<open>value\<close> is called \<open>val\<close> here.
\<close>

record SizeInfo =
  val :: real
  unit :: string
  unit_type :: string
  original :: string

text \<open>
  \<^verbatim>\<open>size_pattern = re.compile(r'(\d+(?:\.\d+)?)\s*(kg|g|gm|lb|oz|ml|l|pcs?|each)', re.IGNORECASE)\<close>

  The unit group is an ordered alternation and nothing follows it, so the first
  alternative that matches at the position decides; \<^verbatim>\<open>pcs?\<close> is greedy and stands for
  \<^verbatim>\<open>pcs\<close> before \<^verbatim>\<open>pc\<close>.
\<close>

definition unit_alternatives :: "string list" where
  "unit_alternatives =
     [''kg'', ''g'', ''gm'', ''lb'', ''oz'', ''ml'', ''l'', ''pcs'', ''pc'', ''each'']"

definition match_unit :: "string \<Rightarrow> string option" where
  "match_unit s =
     (case find (\<lambda>u. str_lower (take (length u) s) = u) unit_alternatives of
        None \<Rightarrow> None
      | Some u \<Rightarrow> Some (take (length u) s))"

text \<open>The optional group \<^verbatim>\<open>(?:\.\d+)?\<close> at the start of \<open>s\<close>: the text it consumes.\<close>

definition match_fraction :: "string \<Rightarrow> string" where
  "match_fraction s =
     (case s of
        [] \<Rightarrow> []
      | c # t \<Rightarrow> if c = CHR ''.'' \<and> takeWhile is_digit t \<noteq> []
                 then c # takeWhile is_digit t else [])"

text \<open>
  One attempt of the pattern at the start of \<open>s\<close>, giving groups 0, 1 and 2. The
  quantifiers are greedy and the attempt made here is the greedy one only. Backtracking
  finds nothing more: a shorter run of digits or of whitespace is followed by a digit or
  by whitespace, where neither \<^verbatim>\<open>.\<close>, whitespace nor a unit can start, and skipping a
  fraction that is present leaves the \<^verbatim>\<open>.\<close> in front of the unit.
\<close>

definition match_at :: "string \<Rightarrow> (string \<times> string \<times> string) option" where
  "match_at s =
     (let ds = takeWhile is_digit s in
      if ds = [] then None
      else
        let fr = match_fraction (drop (length ds) s);
            num = ds @ fr;
            ws = takeWhile is_space (drop (length num) s)
        in case match_unit (drop (length (num @ ws)) s) of
             None \<Rightarrow> None
           | Some u \<Rightarrow> Some (num @ ws @ u, num, u))"

text \<open>\<^verbatim>\<open>size_pattern.search(name)\<close>: the attempt at the leftmost position that succeeds.\<close>

fun size_pattern_search :: "string \<Rightarrow> (string \<times> string \<times> string) option" where
  "size_pattern_search [] = None"
| "size_pattern_search (c # cs) =
     (case match_at (c # cs) of
        Some m \<Rightarrow> Some m
      | None \<Rightarrow> size_pattern_search cs)"

definition digit_val :: "char \<Rightarrow> nat" where
  "digit_val c = (case map_of (zip ''0123456789'' [0, 1, 2, 3, 4, 5, 6, 7, 8, 9]) c of
                    None \<Rightarrow> 0 | Some d \<Rightarrow> d)"

definition digits_val :: "string \<Rightarrow> nat" where
  "digits_val ds = foldl (\<lambda>a c. 10 * a + digit_val c) 0 ds"

text \<open>\<^verbatim>\<open>float(match.group(1))\<close> on the text of group 1, digits with an optional fraction.\<close>

definition float_of_str :: "string \<Rightarrow> real" where
  "float_of_str s =
     (let ip = takeWhile is_digit s; fp = drop (Suc (length ip)) s
      in real (digits_val ip) + real (digits_val fp) / 10 ^ length fp)"

definition conversions :: "(string \<times> real \<times> string \<times> string) list" where
  "conversions =
     [(''kg'', 1000, ''g'', ''weight''),
      (''lb'', 453.6, ''g'', ''weight''),
      (''oz'', 28.35, ''g'', ''weight''),
      (''l'', 1000, ''ml'', ''volume''),
      (''g'', 1, ''g'', ''weight''),
      (''gm'', 1, ''g'', ''weight''),
      (''ml'', 1, ''ml'', ''volume''),
      (''pcs'', 1, ''pcs'', ''count''),
      (''each'', 1, ''each'', ''count'')]"

definition extract_size :: "string \<Rightarrow> SizeInfo" where
  "extract_size name =
     (case size_pattern_search name of
        None \<Rightarrow> \<lparr>val = 0, unit = '''', unit_type = ''unknown'', original = ''''\<rparr>
      | Some (g0, g1, g2) \<Rightarrow>
          let v = float_of_str g1; u = str_lower g2
          in case map_of conversions u of
               Some (factor, base_unit, ut) \<Rightarrow>
                 \<lparr>val = v * factor, unit = base_unit, unit_type = ut, original = g0\<rparr>
             | None \<Rightarrow> \<lparr>val = v, unit = u, unit_type = ''unknown'', original = g0\<rparr>)"

definition calculate_size_similarity :: "SizeInfo \<Rightarrow> SizeInfo \<Rightarrow> real" where
  "calculate_size_similarity size1 size2 =
     (if unit_type size1 \<noteq> unit_type size2 then
        (if unit_type size1 = ''unknown'' \<or> unit_type size2 = ''unknown'' then 0.3 else 0.1)
      else if val size1 = 0 \<or> val size2 = 0 then 0.5
      else
        let ratio = min (val size1) (val size2) / max (val size1) (val size2)
        in if \<bar>ratio - 1.0\<bar> < 0.02 then 1.0
           else if ratio < 0.5 then ratio * 0.3
           else if ratio < 0.75 then ratio * 0.6
           else ratio)"

subsection \<open>More string operations\<close>

text \<open>\<^verbatim>\<open>s.replace(old, new)\<close> for a non-empty \<open>old\<close>: occurrences are replaced from the left,
  without overlap.\<close>

fun replace_scan :: "string \<Rightarrow> string \<Rightarrow> string \<Rightarrow> string" where
  "replace_scan old new [] = []"
| "replace_scan old new (c # cs) =
     (if old \<noteq> [] \<and> prefix old (c # cs)
      then new @ replace_scan old new (drop (length old - 1) cs)
      else c # replace_scan old new cs)"

text \<open>\<^verbatim>\<open>s.replace(old, new)\<close>; an empty \<open>old\<close> matches before every character and at the
  end.\<close>

definition str_replace :: "string \<Rightarrow> string \<Rightarrow> string \<Rightarrow> string" where
  "str_replace old new s =
     (if old = [] then new @ concat (map (\<lambda>c. c # new) s) else replace_scan old new s)"

text \<open>\<^verbatim>\<open>s.split()\<close>: the maximal runs of characters that are not whitespace; \<open>cur\<close> is
  the word being read.\<close>

fun split_words :: "string \<Rightarrow> string \<Rightarrow> string list" where
  "split_words cur [] = (if cur = [] then [] else [cur])"
| "split_words cur (c # cs) =
     (if is_space c then (if cur = [] then split_words [] cs else cur # split_words [] cs)
      else split_words (cur @ [c]) cs)"

definition str_split :: "string \<Rightarrow> string list" where
  "str_split s = split_words [] s"

text \<open>\<^verbatim>\<open>s.split(sep)\<close> for a separator of one character: empty pieces are kept.\<close>

fun split_on :: "char \<Rightarrow> string \<Rightarrow> string list" where
  "split_on sep [] = [[]]"
| "split_on sep (c # cs) =
     (if c = sep then [] # split_on sep cs
      else (case split_on sep cs of
              [] \<Rightarrow> [[c]]
            | w # ws \<Rightarrow> (c # w) # ws))"

text \<open>\<^verbatim>\<open>s.strip()\<close>\<close>

definition str_strip :: "string \<Rightarrow> string" where
  "str_strip s = rev (dropWhile is_space (rev (dropWhile is_space s)))"

text \<open>\<^verbatim>\<open>sep.join(words)\<close>\<close>

fun str_join :: "string \<Rightarrow> string list \<Rightarrow> string" where
  "str_join sep [] = []"
| "str_join sep [w] = w"
| "str_join sep (w # ws) = w @ sep @ str_join sep ws"

text \<open>
  The characters from \<^verbatim>\<open>\x80\<close> on that are alphanumeric without being one of the letters
  above: the ordinal indicators, the superscript digits, the micro sign, the fractions
  and the small letters \<^verbatim>\<open>\xdf\<close> and \<^verbatim>\<open>\xff\<close>.
\<close>

definition latin_alnum :: string where
  "latin_alnum =
     [CHR 0xAA, CHR 0xB2, CHR 0xB3, CHR 0xB5, CHR 0xB9, CHR 0xBA, CHR 0xBC, CHR 0xBD,
      CHR 0xBE, CHR 0xDF, CHR 0xFF]"

text \<open>The regular expression class \<^verbatim>\<open>\w\<close>.\<close>

definition is_word :: "char \<Rightarrow> bool" where
  "is_word c =
     (c \<in> set (ascii_lower @ ascii_upper @ ''0123456789_''
                @ latin_upper @ latin_lower @ latin_alnum))"

text \<open>\<^verbatim>\<open>re.sub(r'[^\w\s]', ' ', name)\<close>\<close>

definition sub_non_word :: "string \<Rightarrow> string" where
  "sub_non_word s = map (\<lambda>c. if is_word c \<or> is_space c then c else CHR '' '') s"

subsection \<open>The rule store\<close>

text \<open>
  One entry of \<^verbatim>\<open>classifications["categories"]\<close>. The key \<^verbatim>\<open>type\<close> is read with
  \<^verbatim>\<open>category["type"]\<close> and is a field; \<^verbatim>\<open>subtype\<close> is read with a default and is
  optional; \<open>cat_keywords\<close> is the value of \<^verbatim>\<open>category.get("keywords", [])\<close>.
\<close>

record category =
  cat_type :: string
  cat_subtype :: "string option"
  cat_keywords :: "string list"

text \<open>One entry of \<^verbatim>\<open>synonyms["groups"]\<close>, each field as its \<^verbatim>\<open>get\<close> with default reads it.\<close>

record synonym_group =
  canonical :: string
  terms :: "string list"

text \<open>
  The attributes of a \<^verbatim>\<open>ProductMatcher\<close> after \<^verbatim>\<open>__init__\<close>. \<open>brand_set\<close> is a Python set;
  the list gives its elements in the order in which the instance iterates over them.
\<close>

record matcher =
  categories :: "category list"
  synonym_groups :: "synonym_group list"
  forbidden_pairs :: "(string \<times> string) set"
  forbidden_patterns :: "(string \<times> string) list"
  brand_set :: "string list"
  strict_categories :: "string set"
  incompatible_categories :: "string list list"
  penalty_multipliers :: "string \<rightharpoonup> real"

text \<open>
  The functions the module takes from libraries: the sentence embedding
  \<^verbatim>\<open>model.encode\<close> as a function of one sentence, \<^verbatim>\<open>fuzz.token_sort_ratio\<close>, and the
  float formats \<^verbatim>\<open>{x:.2f}\<close>, \<^verbatim>\<open>{x:.1f}\<close> and \<^verbatim>\<open>{x}\<close> of the warning messages.
\<close>

record externals =
  encode :: "string \<Rightarrow> real list"
  token_sort_ratio :: "string \<Rightarrow> string \<Rightarrow> int"
  fmt_2f :: "real \<Rightarrow> string"
  fmt_1f :: "real \<Rightarrow> string"
  str_float :: "real \<Rightarrow> string"

text \<open>A product dictionary with the keys the matcher reads; an absent key is \<open>None\<close>.\<close>

record product =
  p_id :: "int option"
  p_name :: "string option"
  p_price :: "real option"

datatype error = KeyError string

text \<open>\<^verbatim>\<open>product['name']\<close> and \<^verbatim>\<open>product['id']\<close>\<close>

definition get_name :: "product \<Rightarrow> error + string" where
  "get_name p = (case p_name p of None \<Rightarrow> Inl (KeyError ''name'') | Some n \<Rightarrow> Inr n)"

definition get_id :: "product \<Rightarrow> error + int" where
  "get_id p = (case p_id p of None \<Rightarrow> Inl (KeyError ''id'') | Some i \<Rightarrow> Inr i)"

text \<open>The dataclass \<^verbatim>\<open>ProductMatch\<close>.\<close>

record ProductMatch =
  primary_id :: int
  matched_id :: int
  confidence :: real
  match_type :: string
  size_similarity :: real
  warnings :: "string list"

subsection \<open>Classification\<close>

text \<open>The body of the loop over the terms of one synonym group.\<close>

definition apply_term :: "string \<Rightarrow> string \<Rightarrow> string \<Rightarrow> string" where
  "apply_term canon name_lower syn =
     (if str_in (str_lower syn) name_lower
      then str_replace (str_lower syn) (str_lower canon) name_lower
      else name_lower)"

definition apply_synonyms :: "synonym_group list \<Rightarrow> string \<Rightarrow> string" where
  "apply_synonyms groups name_lower =
     foldl (\<lambda>nl g. foldl (apply_term (canonical g)) nl (terms g)) name_lower groups"

text \<open>
  The body of the loop over the categories: the tuple appended for the first keyword of
  the category that occurs in the name, if there is one.
\<close>

definition category_match :: "string \<Rightarrow> category \<Rightarrow> (nat \<times> string \<times> string \<times> string) option" where
  "category_match name_lower c =
     (case find (\<lambda>k. str_in (str_lower k) name_lower) (cat_keywords c) of
        None \<Rightarrow> None
      | Some k \<Rightarrow>
          Some (length (cat_keywords c), cat_type c,
                (case cat_subtype c of None \<Rightarrow> ''generic'' | Some s \<Rightarrow> s), k))"

text \<open>
  \<^verbatim>\<open>xs.sort(reverse=True)\<close>: the list is reversed, sorted upwards by a stable sort and
  reversed again. Tuples and strings are compared lexicographically.
\<close>

definition sort_reverse :: "'a::linorder list \<Rightarrow> 'a list" where
  "sort_reverse xs = rev (sort (rev xs))"

text \<open>The working copy \<^verbatim>\<open>name_lower\<close> after the synonym loop.\<close>

definition canonical_name :: "matcher \<Rightarrow> string \<Rightarrow> string" where
  "canonical_name m name = apply_synonyms (synonym_groups m) (str_lower name)"

text \<open>The list \<^verbatim>\<open>matches\<close> that \<^verbatim>\<open>classify_product\<close> builds for a name.\<close>

definition category_matches :: "matcher \<Rightarrow> string \<Rightarrow> (nat \<times> string \<times> string \<times> string) list" where
  "category_matches m name =
     List.map_filter (category_match (canonical_name m name)) (categories m)"

definition classify_product :: "matcher \<Rightarrow> string \<Rightarrow> string \<times> string" where
  "classify_product m name =
     (case sort_reverse (category_matches m name) of
        [] \<Rightarrow> (''other'', ''generic'')
      | (priority, t, s, k) # rest \<Rightarrow> (t, s))"

subsection \<open>Forbidden matches\<close>

text \<open>The truth value of an \<^verbatim>\<open>Optional[str]\<close>: neither \<^verbatim>\<open>None\<close> nor empty.\<close>

definition truthy :: "string option \<Rightarrow> bool" where
  "truthy b = (case b of None \<Rightarrow> False | Some s \<Rightarrow> s \<noteq> [])"

text \<open>
  \<^verbatim>\<open>_matches_pattern\<close>. With a \<^verbatim>\<open>:\<close> in the pattern and not exactly two parts the
  function falls off its end and returns \<^verbatim>\<open>None\<close>, which the caller reads as false.
\<close>

definition matches_pattern :: "string \<Rightarrow> string \<Rightarrow> string \<Rightarrow> string \<Rightarrow> bool" where
  "matches_pattern pattern name type subtype =
     (if CHR '':'' \<in> set pattern then
        (let parts = split_on (CHR '':'') pattern
         in length parts = 2 \<and> parts ! 0 = type \<and> parts ! 1 = subtype)
      else if CHR ''|'' \<in> set pattern then
        list_ex (\<lambda>opt. str_in opt name) (split_on (CHR ''|'') pattern)
      else str_in pattern name)"

text \<open>The body of the loop of \<^verbatim>\<open>_check_forbidden_patterns\<close>: whether it returns true at
  this pattern.\<close>

definition pattern_hit ::
  "string \<Rightarrow> string \<Rightarrow> string \<Rightarrow> string \<Rightarrow> string \<Rightarrow> string \<Rightarrow> string \<times> string \<Rightarrow> bool" where
  "pattern_hit name1_lower name2_lower type1 subtype1 type2 subtype2 pattern =
     (case pattern of (pattern1, pattern2) \<Rightarrow>
        if CHR '':'' \<in> set pattern1 then
          (let cat1_parts = split_on (CHR '':'') pattern1
           in length cat1_parts = 2 \<and> cat1_parts ! 0 = type1 \<and> cat1_parts ! 1 = subtype1
              \<and> matches_pattern pattern2 name2_lower type2 subtype2)
        else if CHR ''|'' \<in> set pattern1 then
          (let options1 = split_on (CHR ''|'') pattern1;
               options2 = (if CHR ''|'' \<in> set pattern2 then split_on (CHR ''|'') pattern2
                           else [pattern2])
           in list_ex (\<lambda>opt1. str_in opt1 name1_lower) options1
              \<and> list_ex (\<lambda>opt2. str_in opt2 name2_lower) options2)
        else
          (str_in pattern1 name1_lower \<and> str_in pattern2 name2_lower)
          \<or> (str_in pattern2 name1_lower \<and> str_in pattern1 name2_lower))"

definition check_forbidden_patterns ::
  "matcher \<Rightarrow> string \<Rightarrow> string \<Rightarrow> string \<Rightarrow> string \<Rightarrow> string \<Rightarrow> string \<Rightarrow> bool" where
  "check_forbidden_patterns m name1 name2 type1 subtype1 type2 subtype2 =
     list_ex (pattern_hit (str_lower name1) (str_lower name2) type1 subtype1 type2 subtype2)
       (forbidden_patterns m)"

text \<open>The condition of the loop over \<^verbatim>\<open>incompatible_categories\<close>.\<close>

definition incompatible_hit :: "string \<Rightarrow> string \<Rightarrow> string \<Rightarrow> string \<Rightarrow> string list \<Rightarrow> bool" where
  "incompatible_hit type1 subtype1 type2 subtype2 incompat_pair =
     (length incompat_pair = 2 \<and>
      (let cat1 = incompat_pair ! 0; cat2 = incompat_pair ! 1
       in (type1 @ '':'' @ subtype1 = cat1 \<and> type2 @ '':'' @ subtype2 = cat2)
          \<or> (type1 @ '':'' @ subtype1 = cat2 \<and> type2 @ '':'' @ subtype2 = cat1)
          \<or> (type1 = cat1 \<and> type2 = cat2)
          \<or> (type1 = cat2 \<and> type2 = cat1)))"

definition named_spices :: "string list" where
  "named_spices = [''amchur'', ''anardana'', ''cumin'', ''coriander'', ''turmeric'', ''chili'']"

definition baking_spices :: "string list" where
  "baking_spices = [''cumin'', ''coriander'', ''turmeric'', ''chili'', ''masala'']"

text \<open>The hard-coded rules at the end of \<^verbatim>\<open>is_forbidden_match\<close>, on the two lowered names.\<close>

definition critical_rules :: "string \<Rightarrow> string \<Rightarrow> bool \<times> string" where
  "critical_rules name1_lower name2_lower =
     (if (str_in ''baking powder'' name1_lower
            \<and> list_ex (\<lambda>spice. str_in spice name2_lower) baking_spices)
         \<or> (str_in ''baking powder'' name2_lower
            \<and> list_ex (\<lambda>spice. str_in spice name1_lower) baking_spices)
      then (True, ''Baking powder cannot match with spices'')
      else
        let spice1 = find (\<lambda>s. str_in s name1_lower) named_spices;
            spice2 = find (\<lambda>s. str_in s name2_lower) named_spices
        in if truthy spice1 \<and> truthy spice2 \<and> spice1 \<noteq> spice2
           then (True, ''Different spices: '' @ the spice1 @ '' vs '' @ the spice2)
           else if (str_in ''coconut'' name1_lower \<and> str_in ''curry'' name2_lower)
                   \<or> (str_in ''curry'' name1_lower \<and> str_in ''coconut'' name2_lower)
           then (True, ''Coconut products cannot match with curry products'')
           else (False, []))"

text \<open>
  \<^verbatim>\<open>is_forbidden_match\<close>. The names are read from the two dictionaries only when the
  two look-ups in \<^verbatim>\<open>forbidden_pairs\<close> have found nothing.
\<close>

definition is_forbidden_match ::
  "matcher \<Rightarrow> product \<Rightarrow> product \<Rightarrow> string \<Rightarrow> string \<Rightarrow> string \<Rightarrow> string
     \<Rightarrow> error + (bool \<times> string)" where
  "is_forbidden_match m primary candidate type1 subtype1 type2 subtype2 =
     (if (type1 @ '':'' @ subtype1, type2 @ '':'' @ subtype2) \<in> forbidden_pairs m then
        Inr (True, ''Forbidden type combination: '' @ type1 @ '':'' @ subtype1 @ '' vs ''
                     @ type2 @ '':'' @ subtype2)
      else if (type1, type2) \<in> forbidden_pairs m then
        Inr (True, ''Forbidden type combination: '' @ type1 @ '' vs '' @ type2)
      else
        (case get_name primary of
           Inl e \<Rightarrow> Inl e
         | Inr name1 \<Rightarrow>
        (case get_name candidate of
           Inl e \<Rightarrow> Inl e
         | Inr name2 \<Rightarrow>
             if check_forbidden_patterns m name1 name2 type1 subtype1 type2 subtype2 then
               Inr (True, ''Matches forbidden pattern'')
             else
               (case find (incompatible_hit type1 subtype1 type2 subtype2)
                       (incompatible_categories m) of
                  Some incompat_pair \<Rightarrow>
                    Inr (True, ''Incompatible categories: '' @ incompat_pair ! 0 @ '' vs ''
                                 @ incompat_pair ! 1)
                | None \<Rightarrow> Inr (critical_rules (str_lower name1) (str_lower name2))))))"

subsection \<open>Hybrid similarity\<close>

definition stop_words :: "string list" where
  "stop_words = [''the'', ''and'', ''or'', ''of'', ''in'', ''with'', ''for'', ''pure'',
                 ''organic'', ''fresh'', ''premium'']"

definition normalize_name :: "string \<Rightarrow> string" where
  "normalize_name name =
     (let size_info = extract_size name;
          name1 = (if original size_info \<noteq> [] then str_replace (original size_info) [] name
                   else name);
          name2 = str_strip (str_lower name1);
          name3 = sub_non_word name2;
          words = filter (\<lambda>w. w \<notin> set stop_words) (str_split name3)
      in str_join '' '' words)"

definition extract_brand :: "matcher \<Rightarrow> string \<Rightarrow> string option" where
  "extract_brand m name =
     (let name_words = str_split (str_lower name)
      in find (\<lambda>brand. str_lower brand \<in> set name_words \<or> str_in (str_lower brand) (str_lower name))
           (brand_set m))"

text \<open>
  Modelled from the spec: a vector scaled to length one for the cosine similarity, a
  vector of zeros being left as it is. The library function that does it,
  \<^verbatim>\<open>sklearn\<close>'s \<^verbatim>\<open>cosine_similarity\<close>, is not part of the repository.
\<close>

definition unit_vector :: "real list \<Rightarrow> real list" where
  "unit_vector v =
     (let n = sqrt (sum_list (map (\<lambda>x. x * x) v))
      in map (\<lambda>x. x / (if n = 0 then 1 else n)) v)"

text \<open>
  Modelled from the spec: the cosine similarity of two embeddings, the inner product of
  the two vectors scaled to length one. Embeddings of one model have one length.
\<close>

definition cosine_similarity :: "real list \<Rightarrow> real list \<Rightarrow> real" where
  "cosine_similarity u v = sum_list (map2 (*) (unit_vector u) (unit_vector v))"

definition calculate_hybrid_similarity :: "externals \<Rightarrow> matcher \<Rightarrow> string \<Rightarrow> string \<Rightarrow> real" where
  "calculate_hybrid_similarity ext m name1 name2 =
     (let norm1 = normalize_name name1;
          norm2 = normalize_name name2
      in if norm1 = [] \<or> norm2 = [] then 0.0
         else if set (str_split norm1) \<inter> set (str_split norm2) = {} then 0.1
         else
           let semantic_sim = cosine_similarity (encode ext norm1) (encode ext norm2);
               fuzzy_sim = real_of_int (token_sort_ratio ext norm1 norm2) / 100.0;
               hybrid_score = semantic_sim * 0.4 + fuzzy_sim * 0.6;
               brand1 = extract_brand m name1;
               brand2 = extract_brand m name2
           in if truthy brand1 \<and> brand1 = brand2 then min (hybrid_score + 0.1) 1.0
              else if truthy brand1 \<and> truthy brand2 \<and> brand1 \<noteq> brand2 then hybrid_score * 0.85
              else hybrid_score)"

subsection \<open>Confidence\<close>

text \<open>The category step of \<^verbatim>\<open>calculate_confidence\<close>, on the score and the warnings so far.\<close>

definition apply_category_penalty ::
  "matcher \<Rightarrow> string \<Rightarrow> string \<Rightarrow> string \<Rightarrow> string \<Rightarrow> real \<times> string list
     \<Rightarrow> real \<times> string list" where
  "apply_category_penalty m p_type p_subtype c_type c_subtype st =
     (case st of (base_score, warns) \<Rightarrow>
        if p_type \<noteq> c_type then
          (let penalty_key = ''different_'' @ p_type @ ''_vs_'' @ c_type
           in (case penalty_multipliers m penalty_key of
                 Some mult \<Rightarrow> base_score * mult
               | None \<Rightarrow> base_score * 0.5,
               warns @ [''Type mismatch: '' @ p_type @ '' vs '' @ c_type]))
        else if p_subtype \<noteq> c_subtype then
          (if p_type @ '':'' @ p_subtype \<in> strict_categories m
              \<or> c_type @ '':'' @ c_subtype \<in> strict_categories m
           then (base_score * 0.3,
                 warns @ [''Strict subtype mismatch: '' @ p_subtype @ '' vs '' @ c_subtype])
           else (base_score * 0.7,
                 warns @ [''Subtype mismatch: '' @ p_subtype @ '' vs '' @ c_subtype]))
        else (min (base_score + 0.15) 1.0, warns))"

text \<open>The size step.\<close>

definition apply_size_penalty ::
  "externals \<Rightarrow> SizeInfo \<Rightarrow> SizeInfo \<Rightarrow> real \<times> string list \<Rightarrow> real \<times> string list" where
  "apply_size_penalty ext p_size c_size st =
     (case st of (base_score, warns) \<Rightarrow>
        let size_sim = calculate_size_similarity p_size c_size;
            sizes = str_float ext (val p_size) @ unit p_size @ '' vs ''
                    @ str_float ext (val c_size) @ unit c_size
        in if size_sim < 0.5 then
             (base_score * 0.5, warns @ [''Significant size mismatch: '' @ sizes])
           else if size_sim < 0.75 then
             (base_score * 0.8, warns @ [''Size difference: '' @ sizes])
           else if size_sim > 0.95 then (min (base_score + 0.05) 1.0, warns)
           else (base_score, warns))"

text \<open>\<^verbatim>\<open>product.get('price')\<close> read as a condition: present and not zero.\<close>

definition has_price :: "product \<Rightarrow> bool" where
  "has_price p = (case p_price p of None \<Rightarrow> False | Some x \<Rightarrow> x \<noteq> 0)"

text \<open>The price step.\<close>

definition apply_price_check ::
  "externals \<Rightarrow> product \<Rightarrow> product \<Rightarrow> real \<times> string list \<Rightarrow> real \<times> string list" where
  "apply_price_check ext primary candidate st =
     (case st of (base_score, warns) \<Rightarrow>
        if has_price primary \<and> has_price candidate then
          (let price_ratio = max (the (p_price primary)) (the (p_price candidate))
                             / min (the (p_price primary)) (the (p_price candidate))
           in if price_ratio > 10 then
                (base_score * 0.6,
                 warns @ [''Large price difference: '' @ fmt_1f ext price_ratio @ ''x''])
              else if price_ratio > 5 then
                (base_score * 0.8,
                 warns @ [''Price difference: '' @ fmt_1f ext price_ratio @ ''x''])
              else (base_score, warns))
        else (base_score, warns))"

definition unit_words :: "string list" where
  "unit_words = [''g'', ''kg'', ''ml'', ''l'', ''oz'', ''lb'']"

text \<open>
  The step for borderline scores. In \<^verbatim>\<open>name_words1 & name_words2 - {...}\<close> the difference
  binds tighter than the intersection.
\<close>

definition apply_borderline_scrutiny ::
  "string \<Rightarrow> string \<Rightarrow> real \<times> string list \<Rightarrow> real \<times> string list" where
  "apply_borderline_scrutiny name1 name2 st =
     (case st of (base_score, warns) \<Rightarrow>
        if 0.6 < base_score \<and> base_score < 0.75 then
          (let score1 = (if length warns > 2 then base_score * 0.8 else base_score);
               name_words1 = set (str_split (str_lower name1));
               name_words2 = set (str_split (str_lower name2));
               common_meaningful = name_words1 \<inter> (name_words2 - set unit_words)
           in if card common_meaningful < 2
              then (score1 * 0.7, warns @ [''Insufficient common meaningful words''])
              else (score1, warns))
        else (base_score, warns))"

definition calculate_confidence ::
  "externals \<Rightarrow> matcher \<Rightarrow> product \<Rightarrow> product \<Rightarrow> error + (real \<times> string list)" where
  "calculate_confidence ext m primary candidate =
     (case get_name primary of
        Inl e \<Rightarrow> Inl e
      | Inr name1 \<Rightarrow>
     (case get_name candidate of
        Inl e \<Rightarrow> Inl e
      | Inr name2 \<Rightarrow>
     (case (classify_product m name1, classify_product m name2) of
        ((p_type, p_subtype), (c_type, c_subtype)) \<Rightarrow>
     (case is_forbidden_match m primary candidate p_type p_subtype c_type c_subtype of
        Inl e \<Rightarrow> Inl e
      | Inr (is_forbidden, reason) \<Rightarrow>
          if is_forbidden then Inr (0.0, [reason])
          else
            let base_score = calculate_hybrid_similarity ext m name1 name2
            in if base_score < 0.3 then
                 Inr (0.0, [''Very low name similarity: '' @ fmt_2f ext base_score])
               else
                 (case apply_borderline_scrutiny name1 name2
                         (apply_price_check ext primary candidate
                           (apply_size_penalty ext (extract_size name1) (extract_size name2)
                             (apply_category_penalty m p_type p_subtype c_type c_subtype
                               (base_score, [])))) of
                    (final_score, warns) \<Rightarrow>
                      Inr (min (max final_score 0.0) 1.0, warns))))))"

subsection \<open>Finding matches\<close>

text \<open>
  The body of the loop of \<^verbatim>\<open>find_matches\<close> for one candidate: the match appended, if
  any. The identifier of the candidate is read before that of the primary.
\<close>

definition match_candidate ::
  "externals \<Rightarrow> matcher \<Rightarrow> product \<Rightarrow> real \<Rightarrow> product \<Rightarrow> error + ProductMatch option" where
  "match_candidate ext m primary min_confidence candidate =
     (case get_id candidate of
        Inl e \<Rightarrow> Inl e
      | Inr cid \<Rightarrow>
     (case get_id primary of
        Inl e \<Rightarrow> Inl e
      | Inr pid \<Rightarrow>
          if cid = pid then Inr None
          else
            (case calculate_confidence ext m primary candidate of
               Inl e \<Rightarrow> Inl e
             | Inr (conf, warns) \<Rightarrow>
                 if conf \<ge> min_confidence then
                   (case get_name primary of
                      Inl e \<Rightarrow> Inl e
                    | Inr name1 \<Rightarrow>
                   (case get_name candidate of
                      Inl e \<Rightarrow> Inl e
                    | Inr name2 \<Rightarrow>
                        Inr (Some \<lparr>primary_id = pid, matched_id = cid, confidence = conf,
                                   match_type = (if conf \<ge> 0.9 then ''exact''
                                                 else if conf \<ge> 0.75 then ''similar''
                                                 else ''substitute''),
                                   size_similarity =
                                     calculate_size_similarity (extract_size name1)
                                       (extract_size name2),
                                   warnings = warns\<rparr>)))
                 else Inr None)))"

text \<open>The loop over the candidates: the list \<^verbatim>\<open>matches\<close> before it is sorted. An
  exception in the body ends the loop and the call.\<close>

fun collect_matches ::
  "externals \<Rightarrow> matcher \<Rightarrow> product \<Rightarrow> real \<Rightarrow> product list \<Rightarrow> error + ProductMatch list" where
  "collect_matches ext m primary min_confidence [] = Inr []"
| "collect_matches ext m primary min_confidence (candidate # rest) =
     (case match_candidate ext m primary min_confidence candidate of
        Inl e \<Rightarrow> Inl e
      | Inr r \<Rightarrow>
          (case collect_matches ext m primary min_confidence rest of
             Inl e \<Rightarrow> Inl e
           | Inr ms \<Rightarrow> Inr (case r of None \<Rightarrow> ms | Some x \<Rightarrow> x # ms)))"

text \<open>\<^verbatim>\<open>matches.sort(key=lambda m: m.confidence, reverse=True)\<close>\<close>

definition sort_by_confidence :: "ProductMatch list \<Rightarrow> ProductMatch list" where
  "sort_by_confidence ms = rev (sort_key confidence (rev ms))"

text \<open>The slice \<^verbatim>\<open>xs[:k]\<close>; a negative \<open>k\<close> counts from the end.\<close>

definition slice_to :: "int \<Rightarrow> 'a list \<Rightarrow> 'a list" where
  "slice_to k xs = (if k < 0 then take (nat (int (length xs) + k)) xs else take (nat k) xs)"

definition find_matches ::
  "externals \<Rightarrow> matcher \<Rightarrow> product \<Rightarrow> product list \<Rightarrow> real \<Rightarrow> int
     \<Rightarrow> error + ProductMatch list" where
  "find_matches ext m primary candidates min_confidence max_matches =
     (case collect_matches ext m primary min_confidence candidates of
        Inl e \<Rightarrow> Inl e
      | Inr ms \<Rightarrow> Inr (slice_to max_matches (sort_by_confidence ms)))"

text \<open>\<^verbatim>\<open>batch_match\<close>; the log messages are left out. \<^verbatim>\<open>find_matches\<close> is called with
  its default \<^verbatim>\<open>max_matches=3\<close>.\<close>

fun batch_match ::
  "externals \<Rightarrow> matcher \<Rightarrow> product list \<Rightarrow> product list \<Rightarrow> real \<Rightarrow> error + ProductMatch list" where
  "batch_match ext m [] candidates min_confidence = Inr []"
| "batch_match ext m (primary # rest) candidates min_confidence =
     (case find_matches ext m primary candidates min_confidence 3 of
        Inl e \<Rightarrow> Inl e
      | Inr ms \<Rightarrow>
          (case batch_match ext m rest candidates min_confidence of
             Inl e \<Rightarrow> Inl e
           | Inr all_matches \<Rightarrow> Inr (ms @ all_matches)))"

subsection \<open>Example inputs\<close>

text \<open>A rule store with two categories of one keyword each and nothing else.\<close>

definition tie_store :: matcher where
  "tie_store =
     \<lparr>categories =
        [\<lparr>cat_type = ''flour'', cat_subtype = Some ''wheat'', cat_keywords = [''atta'']\<rparr>,
         \<lparr>cat_type = ''snack'', cat_subtype = None, cat_keywords = [''chips'']\<rparr>],
      synonym_groups = [], forbidden_pairs = {}, forbidden_patterns = [], brand_set = [],
      strict_categories = {}, incompatible_categories = [], penalty_multipliers = Map.empty\<rparr>"

text \<open>
  Library functions for the examples: every sentence has the embedding \<open>[1]\<close>, every
  pair of strings the ratio \<open>100\<close>. These are the values of equal sentences. A float is
  printed as \<^verbatim>\<open>#\<close>.
\<close>

definition unit_externals :: externals where
  "unit_externals =
     \<lparr>encode = (\<lambda>s. [1]), token_sort_ratio = (\<lambda>a b. 100),
      fmt_2f = (\<lambda>x. ''#''), fmt_1f = (\<lambda>x. ''#''), str_float = (\<lambda>x. ''#'')\<rparr>"




text \<open>A rule store whose only penalty multiplier is for a primary of type \<open>organic\<close> and a
  candidate of type \<open>grain\<close>.\<close>

definition penalty_store :: matcher where
  "penalty_store =
     \<lparr>categories =
        [\<lparr>cat_type = ''organic'', cat_subtype = None,
          cat_keywords = [''organic'', ''bio'', ''natural'']\<rparr>,
         \<lparr>cat_type = ''grain'', cat_subtype = None, cat_keywords = [''rice'', ''wheat'']\<rparr>],
      synonym_groups = [], forbidden_pairs = {}, forbidden_patterns = [], brand_set = [],
      strict_categories = {}, incompatible_categories = [],
      penalty_multipliers = [''different_organic_vs_grain'' \<mapsto> 0.9]\<rparr>"

text \<open>A product dictionary with an identifier and a name and no price.\<close>

definition named_product :: "int \<Rightarrow> string \<Rightarrow> product" where
  "named_product i n = \<lparr>p_id = Some i, p_name = Some n, p_price = None\<rparr>"

text \<open>A product dictionary without the key \<^verbatim>\<open>name\<close>.\<close>

definition nameless_product :: "int \<Rightarrow> product" where
  "nameless_product i = \<lparr>p_id = Some i, p_name = None, p_price = None\<rparr>"

text \<open>
  A number token as group 1 of the pattern reads it: digits \<open>ds\<close>, then \<open>fr\<close>, which is
  empty or a point followed by digits.
\<close>

definition number_token :: "string \<Rightarrow> string \<Rightarrow> bool" where
  "number_token ds fr \<longleftrightarrow>
     ds \<noteq> [] \<and> (\<forall>c\<in>set ds. is_digit c) \<and>
     (fr = [] \<or> (\<exists>fs. fr = CHR ''.'' # fs \<and> fs \<noteq> [] \<and> (\<forall>c\<in>set fs. is_digit c)))"

section \<open>Size extraction\<close>

lemma takeWhile_run:
  assumes "\<forall>c\<in>set xs. P c" and "ys = [] \<or> \<not> P (hd ys)"
  shows "takeWhile P (xs @ ys) = xs"
  using assms by (cases ys) (simp_all add: takeWhile_tail)

lemma search_skip:
  "\<forall>i<length pre. match_at (drop i pre @ s) = None
   \<Longrightarrow> size_pattern_search (pre @ s) = size_pattern_search s"
proof (induction pre)
  case Nil
  then show ?case by simp
next
  case (Cons c pre)
  from Cons.prems have "match_at (drop 0 (c # pre) @ s) = None" by blast
  then have 0: "match_at (c # pre @ s) = None" by simp
  have "\<forall>i<length pre. match_at (drop i pre @ s) = None"
  proof (intro allI impI)
    fix i assume "i < length pre"
    then have "Suc i < length (c # pre)" by simp
    with Cons.prems have "match_at (drop (Suc i) (c # pre) @ s) = None" by blast
    then show "match_at (drop i pre @ s) = None" by simp
  qed
  with Cons.IH 0 show ?case by simp
qed

lemma no_digits_no_match:
  assumes "\<forall>c\<in>set pre. \<not> is_digit c"
  shows "\<forall>i<length pre. match_at (drop i pre @ s) = None"
proof (intro allI impI)
  fix i assume i: "i < length pre"
  then obtain c cs where d: "drop i pre = c # cs" by (cases "drop i pre") auto
  then have "c \<in> set pre" by (metis in_set_dropD list.set_intros(1))
  with assms have "\<not> is_digit c" by blast
  then show "match_at (drop i pre @ s) = None" by (simp add: d match_at_def)
qed

lemma match_at_number_g:
  assumes num: "number_token ds fr"
    and ws: "\<forall>c\<in>set ws. is_space c"
    and g: "g = CHR ''g'' \<or> g = CHR ''G''"
  shows "match_at (ds @ fr @ ws @ g # rest) = Some (ds @ fr @ ws @ [g], ds @ fr, [g])"
proof -
  have nd_g: "\<not> is_digit g" and ns_g: "\<not> is_space g" and g_dot: "g \<noteq> CHR ''.''"
    using g by (auto simp: is_digit_def is_space_def)
  have nd_sp: "\<not> is_digit c" and sp_dot: "c \<noteq> CHR ''.''" if "is_space c" for c
    using that by (auto simp: is_digit_def is_space_def)
  have nd_dot: "\<not> is_digit (CHR ''.'')" by (simp add: is_digit_def)
  let ?tail = "ws @ g # rest"
  have hd_tail: "\<not> is_digit (hd ?tail)" "hd ?tail \<noteq> CHR ''.''"
    using ws nd_g g_dot nd_sp sp_dot by (cases ws; simp)+
  have tail_ne: "?tail \<noteq> []" by simp
  have ds: "takeWhile is_digit (ds @ fr @ ?tail) = ds"
  proof (rule takeWhile_run)
    show "\<forall>c\<in>set ds. is_digit c" using num by (simp add: number_token_def)
    show "fr @ ?tail = [] \<or> \<not> is_digit (hd (fr @ ?tail))"
      using num hd_tail nd_dot by (cases fr) (auto simp: number_token_def)
  qed
  have fr: "match_fraction (fr @ ?tail) = fr"
  proof (cases fr)
    case Nil
    obtain c t where ct: "?tail = c # t" using tail_ne by (cases ?tail) auto
    with hd_tail have "c \<noteq> CHR ''.''" by simp
    with Nil ct show ?thesis by (simp add: match_fraction_def)
  next
    case (Cons d fs')
    with num obtain fs where fs: "fr = CHR ''.'' # fs" "fs \<noteq> []" "\<forall>c\<in>set fs. is_digit c"
      by (auto simp: number_token_def)
    have "takeWhile is_digit (fs @ ?tail) = fs"
      using fs(3) hd_tail(1) by (intro takeWhile_run) auto
    with fs show ?thesis by (simp add: match_fraction_def)
  qed
  have wsr: "takeWhile is_space (ws @ g # rest) = ws"
    using ws ns_g by (intro takeWhile_run) auto
  have "char_lower (CHR ''g'') = CHR ''g''" "char_lower (CHR ''G'') = CHR ''g''"
    by (simp_all add: char_lower_def ascii_upper_def ascii_lower_def latin_upper_def latin_lower_def)
  with g have cl: "char_lower g = CHR ''g''" by blast
  have no_kg: "str_lower (take (length ''kg'') (g # rest)) \<noteq> ''kg''"
    using cl by (simp add: str_lower_def)
  have is_g: "str_lower (take (length ''g'') (g # rest)) = ''g''"
    using cl by (simp add: str_lower_def)
  have unit: "match_unit (g # rest) = Some [g]"
    using no_kg is_g by (simp add: match_unit_def unit_alternatives_def)
  have ne: "ds \<noteq> []" using num by (simp add: number_token_def)
  show ?thesis
    unfolding match_at_def using ds ne fr wsr unit
    by (simp add: Let_def)
qed

lemma match_unit_tail:
  assumes cl: "char_lower g = CHR ''g''"
  shows "match_unit (z @ g # t) = match_unit (z @ g # t')"
proof -
  consider "z = []" | a where "z = [a]" | a b where "z = [a, b]" | a b c where "z = [a, b, c]"
    | a b c d z' where "z = a # b # c # d # z'"
    by (metis list.exhaust)
  then show ?thesis
    using cl by cases (simp_all add: match_unit_def unit_alternatives_def str_lower_def)
qed

lemma match_fraction_tail:
  assumes "\<not> is_digit g" "g \<noteq> CHR ''.''"
  shows "match_fraction (y @ g # t) = match_fraction (y @ [g])"
    and "length (match_fraction (y @ [g])) \<le> length y"
proof -
  have tw: "takeWhile is_digit (v @ g # u) = takeWhile is_digit v" for v u
    using assms(1) by (simp add: takeWhile_tail)
  show "match_fraction (y @ g # t) = match_fraction (y @ [g])"
    using assms(2) tw[of _ t] tw[of _ "[]"] by (cases y) (simp_all add: match_fraction_def)
  show "length (match_fraction (y @ [g])) \<le> length y"
    using assms(2) tw[of _ "[]"] length_takeWhile_le[of is_digit]
    by (cases y) (simp_all add: match_fraction_def)
qed

lemma match_at_tail:
  assumes g: "g = CHR ''g'' \<or> g = CHR ''G''"
  shows "match_at (y @ g # t) = match_at (y @ g # t')"
proof -
  have nd_g: "\<not> is_digit g" and ns_g: "\<not> is_space g" and g_dot: "g \<noteq> CHR ''.''"
    using g by (auto simp: is_digit_def is_space_def)
  have "char_lower (CHR ''g'') = CHR ''g''" "char_lower (CHR ''G'') = CHR ''g''"
    by (simp_all add: char_lower_def ascii_upper_def ascii_lower_def latin_upper_def latin_lower_def)
  with g have cl: "char_lower g = CHR ''g''" by blast
  define D where "D = takeWhile is_digit y"
  define y1 where "y1 = drop (length D) y"
  define F where "F = match_fraction (y1 @ [g])"
  define y2 where "y2 = drop (length F) y1"
  define W where "W = takeWhile is_space y2"
  define z where "z = drop (length W) y2"
  have lD: "length D \<le> length y" by (simp add: D_def length_takeWhile_le)
  have lF: "length F \<le> length y1" unfolding F_def by (rule match_fraction_tail(2)[OF nd_g g_dot])
  have lW: "length W \<le> length y2" by (simp add: W_def length_takeWhile_le)
  have eq: "match_at (y @ g # u) =
              (if D = [] then None
               else case match_unit (z @ g # u) of
                      None \<Rightarrow> None
                    | Some un \<Rightarrow> Some ((D @ F) @ W @ un, D @ F, un))" for u
  proof -
    have 1: "takeWhile is_digit (y @ g # u) = D" using nd_g by (simp add: D_def takeWhile_tail)
    have 2: "drop (length D) (y @ g # u) = y1 @ g # u" using lD by (simp add: y1_def)
    have 3: "match_fraction (y1 @ g # u) = F"
      unfolding F_def by (rule match_fraction_tail(1)[OF nd_g g_dot])
    have 4: "drop (length (D @ F)) (y @ g # u) = y2 @ g # u"
      using lD lF by (simp add: y2_def y1_def add.commute)
    have 5: "takeWhile is_space (y2 @ g # u) = W" using ns_g by (simp add: W_def takeWhile_tail)
    have 6: "drop (length ((D @ F) @ W)) (y @ g # u) = z @ g # u"
      using lD lF lW by (simp add: z_def y2_def y1_def add.commute add.left_commute)
    show ?thesis
      unfolding match_at_def Let_def 1 2 3 4 5 6 by simp
  qed
  show ?thesis unfolding eq match_unit_tail[OF cl, of z t t'] ..
qed

lemma search_number_g:
  assumes "\<forall>i<length pre. match_at (drop i pre @ ds @ fr @ ws @ g # rest) = None"
    "number_token ds fr" "\<forall>c\<in>set ws. is_space c" "g = CHR ''g'' \<or> g = CHR ''G''"
  shows "size_pattern_search (pre @ ds @ fr @ ws @ g # rest)
           = Some (ds @ fr @ ws @ [g], ds @ fr, [g])"
proof -
  obtain c cs where s: "ds @ fr @ ws @ g # rest = c # cs"
    using assms(2) by (cases ds) (auto simp: number_token_def)
  have "size_pattern_search (ds @ fr @ ws @ g # rest) = Some (ds @ fr @ ws @ [g], ds @ fr, [g])"
    using match_at_number_g[OF assms(2,3,4), of rest] unfolding s by simp
  then show ?thesis using search_skip[OF assms(1)] by simp
qed

lemma extract_size_number_g:
  assumes "\<forall>i<length pre. match_at (drop i pre @ ds @ fr @ ws @ g # rest) = None"
    "number_token ds fr" "\<forall>c\<in>set ws. is_space c" "g = CHR ''g'' \<or> g = CHR ''G''"
  shows "extract_size (pre @ ds @ fr @ ws @ g # rest)
           = \<lparr>val = float_of_str (ds @ fr), unit = ''g'', unit_type = ''weight'',
               original = ds @ fr @ ws @ [g]\<rparr>"
proof -
  have "str_lower [CHR ''g''] = ''g''" "str_lower [CHR ''G''] = ''g''"
    by (simp_all add: str_lower_def char_lower_def ascii_upper_def ascii_lower_def latin_upper_def latin_lower_def)
  with assms(4) have low: "str_lower [g] = ''g''" by blast
  have conv: "map_of conversions ''g'' = Some (1, ''g'', ''weight'')"
    by (simp add: conversions_def)
  show ?thesis
    unfolding extract_size_def search_number_g[OF assms]
    by (simp add: low conv)
qed

lemma find_Some_mem:
  "find P xs = Some x \<Longrightarrow> x \<in> set xs \<and> P x"
  by (induction xs) (auto split: if_splits)


lemma match_unit_never_gm:
  assumes "match_unit s = Some u"
  shows "str_lower u \<noteq> ''gm''"
proof
  assume gm: "str_lower u = ''gm''"
  let ?P = "\<lambda>a. str_lower (take (length a) s) = a"
  from assms obtain a where f: "find ?P unit_alternatives = Some a" and u: "u = take (length a) s"
    by (auto simp: match_unit_def split: option.splits)
  from f have Pa: "?P a" by (rule find_Some_mem[THEN conjunct2])
  with u gm have a: "a = ''gm''" by simp
  with Pa have "str_lower (take 2 s) = ''gm''" by (simp add: numeral_2_eq_2)
  then have "take 1 (str_lower (take 2 s)) = ''g''" by simp
  then have g: "?P ''g''" by (simp add: str_lower_def take_map)
  have "find ?P unit_alternatives \<noteq> Some ''gm''"
    using g by (simp add: unit_alternatives_def)
  with f a show False by simp
qed

lemma match_at_unit:
  assumes "match_at s = Some (g0, g1, g2)"
  shows "\<exists>t. match_unit t = Some g2"
  using assms unfolding match_at_def Let_def
  by (auto split: if_splits option.splits)

lemma search_is_match_at:
  "size_pattern_search name = Some r \<Longrightarrow> \<exists>s. match_at s = Some r"
proof (induction name)
  case Nil
  then show ?case by simp
next
  case (Cons c cs)
  then show ?case by (cases "match_at (c # cs)") auto
qed

text \<open>Group 2 of a match is never \<^verbatim>\<open>gm\<close>, so the entry \<^verbatim>\<open>gm\<close> of the table is never read.\<close>

lemma search_group2_never_gm:
  assumes "size_pattern_search name = Some (g0, g1, g2)"
  shows "str_lower g2 \<noteq> ''gm''"
proof -
  from search_is_match_at[OF assms] obtain s where "match_at s = Some (g0, g1, g2)" by blast
  from match_at_unit[OF this] obtain t where "match_unit t = Some g2" by blast
  then show ?thesis by (rule match_unit_never_gm)
qed


lemma extract_size_no_break_space:
  "extract_size (''Haldi 500'' @ [CHR 0xA0] @ ''gm'')
     = \<lparr>val = 500, unit = ''g'', unit_type = ''weight'', original = ''500'' @ [CHR 0xA0] @ ''g''\<rparr>"
  "extract_size (''5'' @ [CHR 0xA0] @ ''kg 500 gm'')
     = \<lparr>val = 5000, unit = ''g'', unit_type = ''weight'', original = ''5'' @ [CHR 0xA0] @ ''kg''\<rparr>"
  by code_simp+

section \<open>Size similarity\<close>

text \<open>
  Claim C4. \<open>calculate_size_similarity\<close> by cases: \<open>0.3\<close> when the unit types differ and
  one is unknown, \<open>0.1\<close> when they differ and both are known, \<open>0.5\<close> when they agree and a
  value is \<open>0\<close>; otherwise, with \<open>ratio = min / max\<close> of the two values, \<open>1\<close> when
  \<open>\<bar>ratio - 1\<bar> < 0.02\<close>, \<open>ratio * 0.3\<close> below \<open>0.5\<close>, \<open>ratio * 0.6\<close> below \<open>0.75\<close>, and
  \<open>ratio\<close> itself from there on.
\<close>

theorem calculate_size_similarity_cases:
  "(unit_type a \<noteq> unit_type b \<and> (unit_type a = ''unknown'' \<or> unit_type b = ''unknown'')
      \<longrightarrow> calculate_size_similarity a b = 0.3)
   \<and> (unit_type a \<noteq> unit_type b \<and> unit_type a \<noteq> ''unknown'' \<and> unit_type b \<noteq> ''unknown''
      \<longrightarrow> calculate_size_similarity a b = 0.1)
   \<and> (unit_type a = unit_type b \<and> (val a = 0 \<or> val b = 0)
      \<longrightarrow> calculate_size_similarity a b = 0.5)
   \<and> (unit_type a = unit_type b \<and> val a \<noteq> 0 \<and> val b \<noteq> 0
      \<longrightarrow> (let ratio = min (val a) (val b) / max (val a) (val b)
           in calculate_size_similarity a b =
                (if \<bar>ratio - 1\<bar> < 0.02 then 1
                 else if ratio < 0.5 then ratio * 0.3
                 else if ratio < 0.75 then ratio * 0.6
                 else ratio)))"
  by (simp add: calculate_size_similarity_def Let_def)

lemma extract_size_rice_5kg:
  "extract_size ''Basmati Rice 5kg''
     = \<lparr>val = 5000, unit = ''g'', unit_type = ''weight'', original = ''5kg''\<rparr>"
  by code_simp

lemma extract_size_rice_2kg:
  "extract_size ''Basmati Rice 2kg''
     = \<lparr>val = 2000, unit = ''g'', unit_type = ''weight'', original = ''2kg''\<rparr>"
  by code_simp

theorem calculate_size_similarity_cases_witness:
  "unit_type (extract_size ''Basmati Rice 5kg'') = unit_type (extract_size ''Basmati Rice 2kg'')
   \<and> val (extract_size ''Basmati Rice 5kg'') \<noteq> 0 \<and> val (extract_size ''Basmati Rice 2kg'') \<noteq> 0
   \<and> calculate_size_similarity (extract_size ''Basmati Rice 5kg'') (extract_size ''Basmati Rice 2kg'')
       = 0.12"
  using calculate_size_similarity_cases[of "extract_size ''Basmati Rice 5kg''"
      "extract_size ''Basmati Rice 2kg''"]
  unfolding extract_size_rice_5kg extract_size_rice_2kg by (simp add: Let_def)

lemma size_curve_mono:
  fixes r s :: real
  assumes "0 < r" "r \<le> s" "s \<le> 1"
  shows "(if \<bar>r - 1\<bar> < 0.02 then 1 else if r < 0.5 then r * 0.3
          else if r < 0.75 then r * 0.6 else r)
         \<le> (if \<bar>s - 1\<bar> < 0.02 then 1 else if s < 0.5 then s * 0.3
             else if s < 0.75 then s * 0.6 else s)"
  using assms by (auto simp: abs_if split: if_splits)

lemma ratio_bounds:
  fixes x y :: real
  assumes "0 < x" "0 < y"
  shows "0 < min x y / max x y" "min x y / max x y \<le> 1"
  using assms by (auto simp: min_def max_def)

lemma calculate_size_similarity_curve:
  assumes "unit_type a = unit_type b" "0 < val a" "0 < val b"
    and "r = min (val a) (val b) / max (val a) (val b)"
  shows "calculate_size_similarity a b =
           (if \<bar>r - 1\<bar> < 0.02 then 1 else if r < 0.5 then r * 0.3
            else if r < 0.75 then r * 0.6 else r)"
  using assms by (simp add: calculate_size_similarity_def Let_def)

text \<open>
  Claim C7. For two pairs of sizes, each pair of one unit type and all values positive,
  the pair with the smaller ratio \<open>min / max\<close> has the smaller or equal similarity; and
  a size with a positive value has similarity \<open>1\<close> with itself.
\<close>

theorem calculate_size_similarity_monotone:
  "(unit_type a = unit_type b \<and> unit_type c = unit_type d
      \<and> 0 < val a \<and> 0 < val b \<and> 0 < val c \<and> 0 < val d
      \<and> min (val a) (val b) / max (val a) (val b) \<le> min (val c) (val d) / max (val c) (val d)
      \<longrightarrow> calculate_size_similarity a b \<le> calculate_size_similarity c d)
   \<and> (0 < val x \<longrightarrow> calculate_size_similarity x x = 1)"
proof (intro conjI impI)
  assume h: "unit_type a = unit_type b \<and> unit_type c = unit_type d
      \<and> 0 < val a \<and> 0 < val b \<and> 0 < val c \<and> 0 < val d
      \<and> min (val a) (val b) / max (val a) (val b) \<le> min (val c) (val d) / max (val c) (val d)"
  define r where "r = min (val a) (val b) / max (val a) (val b)"
  define s where "s = min (val c) (val d) / max (val c) (val d)"
  have "0 < r" "r \<le> s" "s \<le> 1"
    using h ratio_bounds[of "val a" "val b"] ratio_bounds[of "val c" "val d"]
    by (simp_all add: r_def s_def)
  then show "calculate_size_similarity a b \<le> calculate_size_similarity c d"
    using h calculate_size_similarity_curve[of a b r] calculate_size_similarity_curve[of c d s]
      size_curve_mono[of r s]
    by (simp add: r_def s_def)
next
  assume "0 < val x"
  then show "calculate_size_similarity x x = 1"
    by (simp add: calculate_size_similarity_def)
qed

theorem calculate_size_similarity_monotone_witness:
  "calculate_size_similarity \<lparr>val = 5000, unit = ''g'', unit_type = ''weight'', original = ''5kg''\<rparr>
      \<lparr>val = 2000, unit = ''g'', unit_type = ''weight'', original = ''2kg''\<rparr>
    \<le> calculate_size_similarity
        \<lparr>val = 1000, unit = ''g'', unit_type = ''weight'', original = ''1kg''\<rparr>
        \<lparr>val = 800, unit = ''g'', unit_type = ''weight'', original = ''800g''\<rparr>
   \<and> calculate_size_similarity
        \<lparr>val = 1000, unit = ''g'', unit_type = ''weight'', original = ''1kg''\<rparr>
        \<lparr>val = 1000, unit = ''g'', unit_type = ''weight'', original = ''1kg''\<rparr> = 1"
  using calculate_size_similarity_monotone[of
      "\<lparr>val = 5000, unit = ''g'', unit_type = ''weight'', original = ''5kg''\<rparr>"
      "\<lparr>val = 2000, unit = ''g'', unit_type = ''weight'', original = ''2kg''\<rparr>"
      "\<lparr>val = 1000, unit = ''g'', unit_type = ''weight'', original = ''1kg''\<rparr>"
      "\<lparr>val = 800, unit = ''g'', unit_type = ''weight'', original = ''800g''\<rparr>"
      "\<lparr>val = 1000, unit = ''g'', unit_type = ''weight'', original = ''1kg''\<rparr>"]
  by simp

section \<open>Classification\<close>

lemma sorted_le_last:
  fixes ys :: "'a::linorder list"
  assumes "sorted ys" "y \<in> set ys"
  shows "y \<le> last ys"
  using assms by (induction ys) auto

lemma sort_reverse_hd:
  fixes xs :: "'a::linorder list"
  assumes "xs \<noteq> []"
  shows "\<exists>x rest. sort_reverse xs = x # rest \<and> x \<in> set xs \<and> (\<forall>y\<in>set xs. y \<le> x)"
proof -
  let ?ys = "sort (rev xs)"
  have ne: "?ys \<noteq> []" using assms by (metis length_0_conv length_rev length_sort)
  have st: "set ?ys = set xs" by simp
  have "sort_reverse xs = last ?ys # rev (butlast ?ys)"
    unfolding sort_reverse_def using ne by (metis append_butlast_last_id rev_eq_Cons_iff rev_rev_ident)
  moreover have "last ?ys \<in> set xs" using ne st last_in_set by blast
  moreover have "\<forall>y\<in>set xs. y \<le> last ?ys"
    using sorted_le_last[of ?ys] st by simp
  ultimately show ?thesis by blast
qed

lemma set_map_filter:
  "set (List.map_filter f xs) = {y. \<exists>x\<in>set xs. f x = Some y}"
  by (induction xs) (auto simp: map_filter_simps split: option.splits)

lemma category_matches_set:
  "set (category_matches m name) =
     {tup. \<exists>c\<in>set (categories m). category_match (canonical_name m name) c = Some tup}"
  by (simp add: category_matches_def set_map_filter)

lemma category_match_Some:
  assumes "category_match nl c = Some (p, t, s, k)"
  shows "p = length (cat_keywords c) \<and> t = cat_type c
         \<and> s = (case cat_subtype c of None \<Rightarrow> ''generic'' | Some u \<Rightarrow> u)
         \<and> k \<in> set (cat_keywords c) \<and> str_in (str_lower k) nl"
proof (cases "find (\<lambda>k. str_in (str_lower k) nl) (cat_keywords c)")
  case None
  with assms show ?thesis by (simp add: category_match_def)
next
  case (Some k')
  with assms have "k' = k" "p = length (cat_keywords c)" "t = cat_type c"
    "s = (case cat_subtype c of None \<Rightarrow> ''generic'' | Some u \<Rightarrow> u)"
    by (simp_all add: category_match_def)
  with find_Some_mem[OF Some] show ?thesis by simp
qed

lemma category_match_None:
  "category_match nl c = None \<longleftrightarrow> (\<forall>k\<in>set (cat_keywords c). \<not> str_in (str_lower k) nl)"
proof (cases "find (\<lambda>k. str_in (str_lower k) nl) (cat_keywords c)")
  case None
  then have "category_match nl c = None" by (simp add: category_match_def)
  moreover from None have "\<forall>k\<in>set (cat_keywords c). \<not> str_in (str_lower k) nl"
    by (simp add: find_None_iff)
  ultimately show ?thesis by simp
next
  case (Some k')
  then have "category_match nl c \<noteq> None" by (simp add: category_match_def)
  with find_Some_mem[OF Some] show ?thesis by blast
qed

lemma Collect_Some_empty:
  "{y. \<exists>x\<in>S. f x = Some y} = {} \<longleftrightarrow> (\<forall>x\<in>S. f x = None)"
proof
  assume e: "{y. \<exists>x\<in>S. f x = Some y} = {}"
  show "\<forall>x\<in>S. f x = None"
  proof
    fix x assume "x \<in> S"
    show "f x = None"
    proof (cases "f x")
      case (Some y)
      with \<open>x \<in> S\<close> have "y \<in> {y. \<exists>x\<in>S. f x = Some y}" by blast
      with e show ?thesis by simp
    qed simp
  qed
next
  assume "\<forall>x\<in>S. f x = None"
  then show "{y. \<exists>x\<in>S. f x = Some y} = {}" by simp
qed

lemma category_matches_Nil:
  "category_matches m name = [] \<longleftrightarrow>
     (\<forall>c\<in>set (categories m). \<forall>k\<in>set (cat_keywords c).
        \<not> str_in (str_lower k) (canonical_name m name))"
proof -
  have "category_matches m name = [] \<longleftrightarrow> set (category_matches m name) = {}" by simp
  also have "\<dots> \<longleftrightarrow> (\<forall>c\<in>set (categories m). category_match (canonical_name m name) c = None)"
    unfolding category_matches_set by (rule Collect_Some_empty)
  finally show ?thesis by (simp add: category_match_None)
qed

text \<open>
  Claim C3, as the code has it. When no keyword of any category occurs in the name after
  the synonym step, the result is \<open>(other, generic)\<close>. Otherwise it is the type and the
  subtype (\<open>generic\<close> when the category has none) of a category with a keyword in the name
  whose tuple (number of keywords, type, subtype, first keyword found) is the greatest
  of all such tuples in lexicographic order. So the result has the highest priority, and
  among categories of that priority the greatest type string, then subtype, then
  keyword decides; the order of declaration does not.
\<close>

theorem classify_product_greatest:
  "((\<forall>c\<in>set (categories m). \<forall>k\<in>set (cat_keywords c).
        \<not> str_in (str_lower k) (canonical_name m name))
      \<longrightarrow> classify_product m name = (''other'', ''generic''))
   \<and> ((\<exists>c\<in>set (categories m). \<exists>k\<in>set (cat_keywords c).
        str_in (str_lower k) (canonical_name m name))
      \<longrightarrow> (\<exists>c\<in>set (categories m). \<exists>k\<in>set (cat_keywords c). \<exists>s.
            s = (case cat_subtype c of None \<Rightarrow> ''generic'' | Some u \<Rightarrow> u)
          \<and> category_match (canonical_name m name) c
               = Some (length (cat_keywords c), cat_type c, s, k)
          \<and> classify_product m name = (cat_type c, s)
          \<and> (\<forall>c'\<in>set (categories m). \<forall>tup.
                category_match (canonical_name m name) c' = Some tup
                \<longrightarrow> tup \<le> (length (cat_keywords c), cat_type c, s, k)
                  \<and> length (cat_keywords c') \<le> length (cat_keywords c))))"
proof (intro conjI impI)
  assume "\<forall>c\<in>set (categories m). \<forall>k\<in>set (cat_keywords c).
        \<not> str_in (str_lower k) (canonical_name m name)"
  then have "category_matches m name = []" by (simp add: category_matches_Nil)
  then show "classify_product m name = (''other'', ''generic'')"
    by (simp add: classify_product_def sort_reverse_def)
next
  let ?nl = "canonical_name m name"
  assume "\<exists>c\<in>set (categories m). \<exists>k\<in>set (cat_keywords c). str_in (str_lower k) ?nl"
  then have "category_matches m name \<noteq> []" by (simp add: category_matches_Nil)
  from sort_reverse_hd[OF this] obtain x rest where
    x: "sort_reverse (category_matches m name) = x # rest"
       "x \<in> set (category_matches m name)"
       "\<forall>y\<in>set (category_matches m name). y \<le> x" by blast
  obtain p t s k where xt: "x = (p, t, s, k)" by (cases x) auto
  from x(2) obtain c where c: "c \<in> set (categories m)" "category_match ?nl c = Some (p, t, s, k)"
    unfolding category_matches_set xt by blast
  note cs = category_match_Some[OF c(2)]
  have res: "classify_product m name = (cat_type c, s)"
    using cs by (simp add: classify_product_def x(1) xt)
  have mx: "tup \<le> (length (cat_keywords c), cat_type c, s, k)
            \<and> length (cat_keywords c') \<le> length (cat_keywords c)"
    if c': "c' \<in> set (categories m)" and tup: "category_match ?nl c' = Some tup" for c' tup
  proof -
    have "tup \<in> set (category_matches m name)"
      unfolding category_matches_set using c' tup by blast
    with x(3) have le: "tup \<le> (p, t, s, k)" by (simp add: xt)
    obtain p' t' s' k' where t': "tup = (p', t', s', k')" by (cases tup) auto
    from category_match_Some[OF tup[unfolded t']] have "p' = length (cat_keywords c')" by simp
    moreover from le have "p' \<le> p" by (auto simp: t' less_eq_prod_def)
    ultimately show ?thesis using le cs by simp
  qed
  show "\<exists>c\<in>set (categories m). \<exists>k\<in>set (cat_keywords c). \<exists>s.
            s = (case cat_subtype c of None \<Rightarrow> ''generic'' | Some u \<Rightarrow> u)
          \<and> category_match ?nl c = Some (length (cat_keywords c), cat_type c, s, k)
          \<and> classify_product m name = (cat_type c, s)
          \<and> (\<forall>c'\<in>set (categories m). \<forall>tup.
                category_match ?nl c' = Some tup
                \<longrightarrow> tup \<le> (length (cat_keywords c), cat_type c, s, k)
                  \<and> length (cat_keywords c') \<le> length (cat_keywords c))"
  proof (intro bexI[of _ c] bexI[of _ k] exI[of _ s] conjI ballI allI impI)
    show "s = (case cat_subtype c of None \<Rightarrow> ''generic'' | Some u \<Rightarrow> u)" using cs by simp
    show "category_match ?nl c = Some (length (cat_keywords c), cat_type c, s, k)"
      using c(2) cs by simp
    show "classify_product m name = (cat_type c, s)" by (rule res)
    show "k \<in> set (cat_keywords c)" using cs by simp
    show "c \<in> set (categories m)" by (rule c(1))
  qed (use mx in blast)+
qed

lemma tie_store_matches:
  "category_matches tie_store ''Atta Chips'' =
     [(1, ''flour'', ''wheat'', ''atta''), (1, ''snack'', ''generic'', ''chips'')]"
  by code_simp

text \<open>
  Two categories of equal priority match \<^verbatim>\<open>Atta Chips\<close>; the one declared first is
  \<open>flour\<close>, the result is \<open>snack\<close>, the greater string.
\<close>

theorem classify_product_tie_counterexample:
  "category_matches tie_store ''Atta Chips'' =
     [(1, ''flour'', ''wheat'', ''atta''), (1, ''snack'', ''generic'', ''chips'')]
   \<and> classify_product tie_store ''Atta Chips'' = (''snack'', ''generic'')
   \<and> classify_product tie_store ''Atta Chips'' \<noteq> (''flour'', ''wheat'')"
  by code_simp


theorem classify_product_greatest_witness:
  "(\<exists>c\<in>set (categories tie_store). \<exists>k\<in>set (cat_keywords c).
      str_in (str_lower k) (canonical_name tie_store ''Atta Chips''))
   \<and> classify_product tie_store ''Atta Chips'' = (''snack'', ''generic'')"
proof -
  let ?nl = "canonical_name tie_store ''Atta Chips''"
  let ?flour = "\<lparr>cat_type = ''flour'', cat_subtype = Some ''wheat'', cat_keywords = [''atta'']\<rparr>"
  let ?snack = "\<lparr>cat_type = ''snack'', cat_subtype = None, cat_keywords = [''chips'']\<rparr>"
  have cats: "categories tie_store = [?flour, ?snack]" by (simp add: tie_store_def)
  have nl: "?nl = ''atta chips''" by code_simp
  have snack: "category_match ?nl ?snack = Some (1, ''snack'', ''generic'', ''chips'')"
    unfolding nl by code_simp
  have hyp: "\<exists>c\<in>set (categories tie_store). \<exists>k\<in>set (cat_keywords c). str_in (str_lower k) ?nl"
    unfolding nl cats by code_simp
  with classify_product_greatest[of tie_store "''Atta Chips''"]
  obtain c k s where
    c: "c \<in> set (categories tie_store)"
    and s: "s = (case cat_subtype c of None \<Rightarrow> ''generic'' | Some u \<Rightarrow> u)"
    and res: "classify_product tie_store ''Atta Chips'' = (cat_type c, s)"
    and mx: "\<forall>c'\<in>set (categories tie_store). \<forall>tup. category_match ?nl c' = Some tup
               \<longrightarrow> tup \<le> (length (cat_keywords c), cat_type c, s, k)"
    by blast
  from mx snack have le: "(1, ''snack'', ''generic'', ''chips'') \<le> (length (cat_keywords c), cat_type c, s, k)"
    by (simp add: cats)
  have "c \<noteq> ?flour"
  proof
    assume "c = ?flour"
    with le s have "(1::nat, ''snack'', ''generic'', ''chips'') \<le> (1, ''flour'', ''wheat'', k)"
      by simp
    then have "''snack'' \<le> ''flour''" by (simp add: less_eq_prod_def split: if_splits)
    then show False by code_simp
  qed
  with c have "c = ?snack" by (simp add: cats)
  with res s hyp show ?thesis by simp
qed


section \<open>Confidence\<close>

lemma is_forbidden_match_total:
  assumes "p_name primary = Some name1" "p_name candidate = Some name2"
  shows "\<exists>r. is_forbidden_match m primary candidate t1 s1 t2 s2 = Inr r"
  using assms unfolding is_forbidden_match_def get_name_def
  by (cases "find (incompatible_hit t1 s1 t2 s2) (incompatible_categories m)") auto

text \<open>
  Claim C1. When both products have a name and \<open>is_forbidden_match\<close>, called on their
  classifications, returns true with a reason, \<open>calculate_confidence\<close> returns the score
  \<open>0\<close> and the list holding that reason alone, whatever the library functions and the
  prices are.
\<close>

theorem calculate_confidence_forbidden:
  assumes "p_name primary = Some name1" "p_name candidate = Some name2"
    and "is_forbidden_match m primary candidate
           (fst (classify_product m name1)) (snd (classify_product m name1))
           (fst (classify_product m name2)) (snd (classify_product m name2))
         = Inr (True, reason)"
  shows "calculate_confidence ext m primary candidate = Inr (0, [reason])"
proof -
  obtain pt ps where p: "classify_product m name1 = (pt, ps)" by (cases "classify_product m name1")
  obtain ct cs where c: "classify_product m name2 = (ct, cs)" by (cases "classify_product m name2")
  from assms(3) have "is_forbidden_match m primary candidate pt ps ct cs = Inr (True, reason)"
    by (simp add: p c)
  with assms(1,2) p c show ?thesis
    by (simp add: calculate_confidence_def get_name_def)
qed

lemma forbidden_spices:
  "is_forbidden_match tie_store
     (named_product 1 ''Everest Turmeric Powder 200g'')
     (named_product 2 ''Badshah Coriander Powder 200g'')
     (fst (classify_product tie_store ''Everest Turmeric Powder 200g''))
     (snd (classify_product tie_store ''Everest Turmeric Powder 200g''))
     (fst (classify_product tie_store ''Badshah Coriander Powder 200g''))
     (snd (classify_product tie_store ''Badshah Coriander Powder 200g''))
   = Inr (True, ''Different spices: turmeric vs coriander'')"
  by code_simp

theorem calculate_confidence_forbidden_witness:
  "calculate_confidence unit_externals tie_store
     (named_product 1 ''Everest Turmeric Powder 200g'')
     (named_product 2 ''Badshah Coriander Powder 200g'')
   = Inr (0, [''Different spices: turmeric vs coriander''])"
proof -
  have n: "p_name (named_product i s) = Some s" for i s by (simp add: named_product_def)
  show ?thesis by (rule calculate_confidence_forbidden[OF n n forbidden_spices])
qed


text \<open>
  Claim C2. When both products have a name, \<open>calculate_confidence\<close> returns, and the
  score it returns is at least \<open>0\<close> and at most \<open>1\<close>.
\<close>

theorem calculate_confidence_range:
  assumes "p_name primary = Some name1" "p_name candidate = Some name2"
  shows "\<exists>score warns. calculate_confidence ext m primary candidate = Inr (score, warns)
           \<and> 0 \<le> score \<and> score \<le> 1"
proof -
  obtain pt ps where p: "classify_product m name1 = (pt, ps)" by (cases "classify_product m name1")
  obtain ct cs where c: "classify_product m name2 = (ct, cs)" by (cases "classify_product m name2")
  from is_forbidden_match_total[OF assms] obtain f r where
    fm: "is_forbidden_match m primary candidate pt ps ct cs = Inr (f, r)" by (metis surj_pair)
  obtain fs ws where st: "apply_borderline_scrutiny name1 name2
       (apply_price_check ext primary candidate
          (apply_size_penalty ext (extract_size name1) (extract_size name2)
             (apply_category_penalty m pt ps ct cs
                (calculate_hybrid_similarity ext m name1 name2, [])))) = (fs, ws)"
    by (metis surj_pair)
  show ?thesis
    using assms p c fm st
    by (simp add: calculate_confidence_def get_name_def Let_def)
qed

theorem calculate_confidence_range_witness:
  "\<exists>score warns. calculate_confidence unit_externals tie_store
       (named_product 1 ''Tata Salt 1kg'') (named_product 2 ''Tata Salt 1kg'') = Inr (score, warns)
     \<and> 0 \<le> score \<and> score \<le> 1"
proof -
  have n: "p_name (named_product i s) = Some s" for i s by (simp add: named_product_def)
  show ?thesis by (rule calculate_confidence_range[OF n n])
qed

section \<open>Hybrid similarity\<close>



lemma cosine_similarity_unit: "cosine_similarity [1] [1] = 1"
  by (simp add: cosine_similarity_def unit_vector_def)






section \<open>The order of the two products\<close>

lemma steps_organic_rice:
  "apply_borderline_scrutiny ''organic rice'' ''rice''
     (apply_price_check unit_externals (named_product 1 ''organic rice'') (named_product 2 ''rice'')
        (apply_size_penalty unit_externals (extract_size ''organic rice'') (extract_size ''rice'')
           (apply_category_penalty penalty_store ''organic'' ''generic'' ''grain'' ''generic''
              (1, []))))
   = (0.504, [''Type mismatch: organic vs grain'', ''Size difference: # vs #'',
              ''Insufficient common meaningful words''])"
  by code_simp

lemma steps_rice_organic:
  "apply_borderline_scrutiny ''rice'' ''organic rice''
     (apply_price_check unit_externals (named_product 2 ''rice'') (named_product 1 ''organic rice'')
        (apply_size_penalty unit_externals (extract_size ''rice'') (extract_size ''organic rice'')
           (apply_category_penalty penalty_store ''grain'' ''generic'' ''organic'' ''generic''
              (1, []))))
   = (0.4, [''Type mismatch: grain vs organic'', ''Size difference: # vs #''])"
  by code_simp

lemma hybrid_organic_rice:
  "calculate_hybrid_similarity unit_externals penalty_store ''organic rice'' ''rice'' = 1"
  "calculate_hybrid_similarity unit_externals penalty_store ''rice'' ''organic rice'' = 1"
proof -
  have n1: "normalize_name ''organic rice'' = ''rice''" by code_simp
  have n2: "normalize_name ''rice'' = ''rice''" by code_simp
  have b: "extract_brand penalty_store x = None" for x
    by (simp add: extract_brand_def penalty_store_def)
  have w: "set (str_split ''rice'') \<inter> set (str_split ''rice'') \<noteq> {}" by code_simp
  show "calculate_hybrid_similarity unit_externals penalty_store ''organic rice'' ''rice'' = 1"
    "calculate_hybrid_similarity unit_externals penalty_store ''rice'' ''organic rice'' = 1"
    unfolding calculate_hybrid_similarity_def n1 n2 b
    using w by (simp_all add: unit_externals_def cosine_similarity_unit truthy_def)
qed

lemma classify_organic_rice:
  "classify_product penalty_store ''organic rice'' = (''organic'', ''generic'')"
  "classify_product penalty_store ''rice'' = (''grain'', ''generic'')"
  by code_simp+

lemma not_forbidden_organic_rice:
  "is_forbidden_match penalty_store (named_product 1 ''organic rice'') (named_product 2 ''rice'')
     ''organic'' ''generic'' ''grain'' ''generic'' = Inr (False, [])"
  "is_forbidden_match penalty_store (named_product 2 ''rice'') (named_product 1 ''organic rice'')
     ''grain'' ''generic'' ''organic'' ''generic'' = Inr (False, [])"
  by code_simp+

text \<open>
  Claim C9. The rule store has a multiplier for the key \<^verbatim>\<open>different_organic_vs_grain\<close>
  and none for \<^verbatim>\<open>different_grain_vs_organic\<close>. With the product of type \<open>organic\<close> as
  primary the score is \<open>0.504\<close>, with the product of type \<open>grain\<close> as primary the default
  \<open>0.5\<close> applies and the score is \<open>0.4\<close>.
\<close>

theorem calculate_confidence_not_symmetric:
  "penalty_multipliers penalty_store ''different_organic_vs_grain'' = Some 0.9
   \<and> penalty_multipliers penalty_store ''different_grain_vs_organic'' = None
   \<and> calculate_confidence unit_externals penalty_store
        (named_product 1 ''organic rice'') (named_product 2 ''rice'')
      = Inr (0.504, [''Type mismatch: organic vs grain'', ''Size difference: # vs #'',
                     ''Insufficient common meaningful words''])
   \<and> calculate_confidence unit_externals penalty_store
        (named_product 2 ''rice'') (named_product 1 ''organic rice'')
      = Inr (0.4, [''Type mismatch: grain vs organic'', ''Size difference: # vs #''])
   \<and> calculate_confidence unit_externals penalty_store
        (named_product 1 ''organic rice'') (named_product 2 ''rice'')
      \<noteq> calculate_confidence unit_externals penalty_store
        (named_product 2 ''rice'') (named_product 1 ''organic rice'')"
proof -
  have k: "penalty_multipliers penalty_store ''different_organic_vs_grain'' = Some 0.9"
    "penalty_multipliers penalty_store ''different_grain_vs_organic'' = None"
    by (simp_all add: penalty_store_def)
  have n: "get_name (named_product i s) = Inr s" for i s
    by (simp add: get_name_def named_product_def)
  have ab: "calculate_confidence unit_externals penalty_store
        (named_product 1 ''organic rice'') (named_product 2 ''rice'')
      = Inr (0.504, [''Type mismatch: organic vs grain'', ''Size difference: # vs #'',
                     ''Insufficient common meaningful words''])"
    unfolding calculate_confidence_def n
    by (simp add: classify_organic_rice not_forbidden_organic_rice hybrid_organic_rice
        steps_organic_rice)
  have ba: "calculate_confidence unit_externals penalty_store
        (named_product 2 ''rice'') (named_product 1 ''organic rice'')
      = Inr (0.4, [''Type mismatch: grain vs organic'', ''Size difference: # vs #''])"
    unfolding calculate_confidence_def n
    by (simp add: classify_organic_rice not_forbidden_organic_rice hybrid_organic_rice
        steps_rice_organic)
  show ?thesis unfolding ab ba using k by simp
qed

section \<open>Finding matches\<close>

lemma match_candidate_Some:
  assumes "match_candidate ext m primary min_confidence candidate = Inr (Some x)"
  shows "min_confidence \<le> confidence x \<and> p_id candidate = Some (matched_id x)
         \<and> p_id primary = Some (primary_id x) \<and> matched_id x \<noteq> primary_id x"
  using assms unfolding match_candidate_def get_id_def
  by (auto split: option.splits sum.splits if_splits prod.splits)

text \<open>What one candidate adds to the list: nothing when the body raises.\<close>

lemma collect_matches_map_filter:
  assumes "collect_matches ext m primary min_confidence candidates = Inr ms"
  shows "ms = List.map_filter
                (\<lambda>c. case match_candidate ext m primary min_confidence c of
                        Inl e \<Rightarrow> None | Inr r \<Rightarrow> r) candidates"
  using assms
proof (induction candidates arbitrary: ms)
  case Nil
  then show ?case by (simp add: map_filter_simps)
next
  case (Cons c cs)
  then show ?case
    by (auto simp: map_filter_simps split: sum.splits option.splits)
qed

lemma collect_matches_members:
  assumes "collect_matches ext m primary min_confidence candidates = Inr ms" "x \<in> set ms"
  shows "\<exists>c\<in>set candidates. match_candidate ext m primary min_confidence c = Inr (Some x)"
  using assms
proof (induction candidates arbitrary: ms)
  case Nil
  then show ?case by simp
next
  case (Cons c cs)
  then show ?case
    by (fastforce split: sum.splits option.splits)
qed

lemma sort_by_confidence_set: "set (sort_by_confidence ms) = set ms"
  by (simp add: sort_by_confidence_def)

lemma sort_by_confidence_sorted:
  "sorted_wrt (\<lambda>a b. confidence a \<ge> confidence b) (sort_by_confidence ms)"
proof -
  have "sorted (map confidence (sort_key confidence (rev ms)))" by (rule sorted_sort_key)
  then have "sorted_wrt (\<lambda>a b. confidence a \<le> confidence b) (sort_key confidence (rev ms))"
    by (simp add: sorted_map)
  then show ?thesis
    unfolding sort_by_confidence_def by (simp add: sorted_wrt_rev)
qed

lemma sort_by_confidence_stable:
  "filter (\<lambda>x. confidence x = k) (sort_by_confidence ms) = filter (\<lambda>x. confidence x = k) ms"
  unfolding sort_by_confidence_def
  by (simp add: rev_filter[symmetric] sort_key_stable)

lemma slice_to_prefix: "prefix (slice_to k xs) xs"
  by (simp add: slice_to_def take_is_prefix)

lemma slice_to_length: "0 \<le> k \<Longrightarrow> length (slice_to k xs) \<le> nat k"
  by (simp add: slice_to_def)


lemma calculate_confidence_total:
  assumes "p_name primary = Some name1" "p_name candidate = Some name2"
  shows "\<exists>r. calculate_confidence ext m primary candidate = Inr r"
proof -
  obtain pt ps where p: "classify_product m name1 = (pt, ps)" by (cases "classify_product m name1")
  obtain ct cs where c: "classify_product m name2 = (ct, cs)" by (cases "classify_product m name2")
  from is_forbidden_match_total[OF assms] obtain f r where
    fm: "is_forbidden_match m primary candidate pt ps ct cs = Inr (f, r)" by (metis surj_pair)
  show ?thesis
    using assms p c fm
    by (simp add: calculate_confidence_def get_name_def Let_def split: prod.splits)
qed

lemma match_candidate_total:
  assumes "p_id primary \<noteq> None" "p_name primary \<noteq> None"
    "p_id candidate \<noteq> None" "p_name candidate \<noteq> None"
  shows "\<exists>r. match_candidate ext m primary min_confidence candidate = Inr r"
proof -
  from assms obtain n1 n2 where n: "p_name primary = Some n1" "p_name candidate = Some n2"
    by auto
  from calculate_confidence_total[OF n] obtain conf warns where
    "calculate_confidence ext m primary candidate = Inr (conf, warns)" by (metis surj_pair)
  with assms n show ?thesis
    by (auto simp: match_candidate_def get_id_def get_name_def)
qed

lemma collect_matches_total:
  assumes "p_id primary \<noteq> None" "p_name primary \<noteq> None"
    "\<forall>c\<in>set candidates. p_id c \<noteq> None \<and> p_name c \<noteq> None"
  shows "\<exists>ms. collect_matches ext m primary min_confidence candidates = Inr ms"
  using assms(3)
proof (induction candidates)
  case Nil
  then show ?case by simp
next
  case (Cons c cs)
  then obtain ms where "collect_matches ext m primary min_confidence cs = Inr ms" by auto
  moreover from Cons.prems match_candidate_total[OF assms(1,2), of c ext m min_confidence]
  obtain r where "match_candidate ext m primary min_confidence c = Inr r" by auto
  ultimately show ?case by simp
qed

text \<open>
  Claim C5. When every dictionary has an identifier and a name, \<open>find_matches\<close> returns
  a list. A list it returns has at most \<open>max_matches\<close> entries, for a \<open>max_matches\<close> that
  is not negative; it has no entry for a candidate with the identifier of the primary,
  every entry has a confidence of at least \<open>min_confidence\<close>, the confidences do not
  increase along the list, and the entries of one confidence stand in the order of
  their candidates in the input.
\<close>

theorem find_matches_result:
  "(p_id primary \<noteq> None \<and> p_name primary \<noteq> None
      \<and> (\<forall>c\<in>set candidates. p_id c \<noteq> None \<and> p_name c \<noteq> None)
      \<longrightarrow> (\<exists>res. find_matches ext m primary candidates min_confidence max_matches = Inr res))
   \<and> (find_matches ext m primary candidates min_confidence max_matches = Inr res
      \<longrightarrow> (0 \<le> max_matches \<longrightarrow> int (length res) \<le> max_matches)
        \<and> (\<forall>x\<in>set res. Some (matched_id x) \<noteq> p_id primary \<and> min_confidence \<le> confidence x)
        \<and> sorted_wrt (\<lambda>a b. confidence a \<ge> confidence b) res
        \<and> (\<forall>k. prefix (filter (\<lambda>x. confidence x = k) res)
                  (filter (\<lambda>x. confidence x = k)
                     (List.map_filter
                        (\<lambda>c. case match_candidate ext m primary min_confidence c of
                                Inl e \<Rightarrow> None | Inr r \<Rightarrow> r) candidates))))"
proof (intro conjI impI)
  assume "p_id primary \<noteq> None \<and> p_name primary \<noteq> None
      \<and> (\<forall>c\<in>set candidates. p_id c \<noteq> None \<and> p_name c \<noteq> None)"
  then obtain ms where "collect_matches ext m primary min_confidence candidates = Inr ms"
    using collect_matches_total[of primary candidates ext m min_confidence] by blast
  then show "\<exists>res. find_matches ext m primary candidates min_confidence max_matches = Inr res"
    by (simp add: find_matches_def)
next
  assume fm: "find_matches ext m primary candidates min_confidence max_matches = Inr res"
  then obtain ms where ms: "collect_matches ext m primary min_confidence candidates = Inr ms"
    and res: "res = slice_to max_matches (sort_by_confidence ms)"
    by (auto simp: find_matches_def split: sum.splits)
  have pre: "prefix res (sort_by_confidence ms)" unfolding res by (rule slice_to_prefix)
  then have sub: "set res \<subseteq> set ms"
    using set_mono_prefix sort_by_confidence_set by blast
  show "sorted_wrt (\<lambda>a b. confidence a \<ge> confidence b) res"
    using pre sort_by_confidence_sorted[of ms]
    by (auto simp: prefix_def sorted_wrt_append)
  show "\<forall>x\<in>set res. Some (matched_id x) \<noteq> p_id primary \<and> min_confidence \<le> confidence x"
  proof
    fix x assume "x \<in> set res"
    with sub have "x \<in> set ms" by blast
    from collect_matches_members[OF ms this] obtain c where
      "match_candidate ext m primary min_confidence c = Inr (Some x)" by blast
    from match_candidate_Some[OF this]
    show "Some (matched_id x) \<noteq> p_id primary \<and> min_confidence \<le> confidence x" by simp
  qed
  show "\<forall>k. prefix (filter (\<lambda>x. confidence x = k) res)
                  (filter (\<lambda>x. confidence x = k)
                     (List.map_filter
                        (\<lambda>c. case match_candidate ext m primary min_confidence c of
                                Inl e \<Rightarrow> None | Inr r \<Rightarrow> r) candidates))"
  proof
    fix k
    have "prefix (filter (\<lambda>x. confidence x = k) res)
            (filter (\<lambda>x. confidence x = k) (sort_by_confidence ms))"
      using pre by (rule filter_mono_prefix)
    then show "prefix (filter (\<lambda>x. confidence x = k) res)
                  (filter (\<lambda>x. confidence x = k)
                     (List.map_filter
                        (\<lambda>c. case match_candidate ext m primary min_confidence c of
                                Inl e \<Rightarrow> None | Inr r \<Rightarrow> r) candidates))"
      unfolding sort_by_confidence_stable collect_matches_map_filter[OF ms] .
  qed
  show "int (length res) \<le> max_matches" if "0 \<le> max_matches"
    using slice_to_length[OF that, of "sort_by_confidence ms"] that unfolding res by linarith
qed

lemma hybrid_salt:
  "calculate_hybrid_similarity unit_externals tie_store ''Tata Salt 1kg'' ''Tata Salt 1kg'' = 1"
proof -
  have n: "normalize_name ''Tata Salt 1kg'' = ''tata salt''" by code_simp
  have b: "extract_brand tie_store x = None" for x
    by (simp add: extract_brand_def tie_store_def)
  have w: "set (str_split ''tata salt'') \<inter> set (str_split ''tata salt'') \<noteq> {}" by code_simp
  show ?thesis
    unfolding calculate_hybrid_similarity_def n b
    using w by (simp add: unit_externals_def cosine_similarity_unit truthy_def)
qed

lemma price_step_no_price:
  "apply_price_check ext (named_product i a) (named_product j b) st = st"
  by (cases st) (simp add: apply_price_check_def has_price_def named_product_def)

lemma steps_salt:
  "apply_borderline_scrutiny ''Tata Salt 1kg'' ''Tata Salt 1kg''
     (apply_size_penalty unit_externals (extract_size ''Tata Salt 1kg'') (extract_size ''Tata Salt 1kg'')
        (apply_category_penalty tie_store ''other'' ''generic'' ''other'' ''generic'' (1, [])))
   = (1, [])"
  by code_simp

lemma classify_salt: "classify_product tie_store ''Tata Salt 1kg'' = (''other'', ''generic'')"
  by code_simp

lemma not_forbidden_salt:
  "is_forbidden_match tie_store (named_product i ''Tata Salt 1kg'') (named_product j ''Tata Salt 1kg'')
     ''other'' ''generic'' ''other'' ''generic'' = Inr (False, [])"
proof -
  have "critical_rules (str_lower ''Tata Salt 1kg'') (str_lower ''Tata Salt 1kg'') = (False, [])"
    by code_simp
  then show ?thesis
    by (simp add: is_forbidden_match_def get_name_def named_product_def tie_store_def
        check_forbidden_patterns_def)
qed

lemma confidence_salt:
  "calculate_confidence unit_externals tie_store
     (named_product i ''Tata Salt 1kg'') (named_product j ''Tata Salt 1kg'') = Inr (1, [])"
proof -
  have n: "get_name (named_product k s) = Inr s" for k s
    by (simp add: get_name_def named_product_def)
  show ?thesis
    unfolding calculate_confidence_def n
    by (simp add: classify_salt not_forbidden_salt hybrid_salt price_step_no_price steps_salt)
qed

lemma size_similarity_salt:
  "calculate_size_similarity (extract_size ''Tata Salt 1kg'') (extract_size ''Tata Salt 1kg'') = 1"
  by code_simp

lemma match_candidate_salt:
  "mc \<le> 1 \<Longrightarrow>
   match_candidate unit_externals tie_store (named_product 1 ''Tata Salt 1kg'') mc
     (named_product j ''Tata Salt 1kg'')
   = (if j = 1 then Inr None
      else Inr (Some \<lparr>primary_id = 1, matched_id = j, confidence = 1, match_type = ''exact'',
                      size_similarity = 1, warnings = []\<rparr>))"
  unfolding match_candidate_def confidence_salt
  by (simp add: get_id_def get_name_def named_product_def size_similarity_salt)

lemma confidence_salt_2kg:
  "calculate_confidence unit_externals tie_store
     (named_product i ''Tata Salt 1kg'') (named_product j ''Tata Salt 2kg'')
   = Inr (1 / 2, [''Significant size mismatch: #g vs #g''])"
proof -
  have n: "get_name (named_product k s) = Inr s" for k s
    by (simp add: get_name_def named_product_def)
  have n1: "normalize_name ''Tata Salt 1kg'' = ''tata salt''"
    and n2: "normalize_name ''Tata Salt 2kg'' = ''tata salt''" by code_simp+
  have b: "extract_brand tie_store x = None" for x
    by (simp add: extract_brand_def tie_store_def)
  have w: "set (str_split ''tata salt'') \<inter> set (str_split ''tata salt'') \<noteq> {}" by code_simp
  have h: "calculate_hybrid_similarity unit_externals tie_store ''Tata Salt 1kg'' ''Tata Salt 2kg'' = 1"
    unfolding calculate_hybrid_similarity_def n1 n2 b
    using w by (simp add: unit_externals_def cosine_similarity_unit truthy_def)
  have c: "classify_product tie_store ''Tata Salt 2kg'' = (''other'', ''generic'')" by code_simp
  have "critical_rules (str_lower ''Tata Salt 1kg'') (str_lower ''Tata Salt 2kg'') = (False, [])"
    by code_simp
  then have f: "is_forbidden_match tie_store (named_product i ''Tata Salt 1kg'')
      (named_product j ''Tata Salt 2kg'') ''other'' ''generic'' ''other'' ''generic'' = Inr (False, [])"
    by (simp add: is_forbidden_match_def get_name_def named_product_def tie_store_def
        check_forbidden_patterns_def)
  have s: "apply_borderline_scrutiny ''Tata Salt 1kg'' ''Tata Salt 2kg''
     (apply_size_penalty unit_externals (extract_size ''Tata Salt 1kg'') (extract_size ''Tata Salt 2kg'')
        (apply_category_penalty tie_store ''other'' ''generic'' ''other'' ''generic'' (1, [])))
   = (1 / 2, [''Significant size mismatch: #g vs #g''])"
    by code_simp
  show ?thesis
    unfolding calculate_confidence_def n
    by (simp add: classify_salt c f h price_step_no_price s)
qed

lemma confidence_butter:
  "calculate_confidence unit_externals tie_store
     (named_product i ''Tata Salt 1kg'') (named_product j ''Amul Butter'')
   = Inr (0, [''Very low name similarity: #''])"
proof -
  have n: "get_name (named_product k s) = Inr s" for k s
    by (simp add: get_name_def named_product_def)
  have n1: "normalize_name ''Tata Salt 1kg'' = ''tata salt''"
    and n2: "normalize_name ''Amul Butter'' = ''amul butter''" by code_simp+
  have w: "set (str_split ''tata salt'') \<inter> set (str_split ''amul butter'') = {}" by code_simp
  have h: "calculate_hybrid_similarity unit_externals tie_store ''Tata Salt 1kg'' ''Amul Butter'' = 1 / 10"
    unfolding calculate_hybrid_similarity_def n1 n2
    using w by simp
  have c: "classify_product tie_store ''Amul Butter'' = (''other'', ''generic'')" by code_simp
  have "critical_rules (str_lower ''Tata Salt 1kg'') (str_lower ''Amul Butter'') = (False, [])"
    by code_simp
  then have f: "is_forbidden_match tie_store (named_product i ''Tata Salt 1kg'')
      (named_product j ''Amul Butter'') ''other'' ''generic'' ''other'' ''generic'' = Inr (False, [])"
    by (simp add: is_forbidden_match_def get_name_def named_product_def tie_store_def
        check_forbidden_patterns_def)
  have fmt: "fmt_2f unit_externals x = ''#''" for x by (simp add: unit_externals_def)
  show ?thesis
    unfolding calculate_confidence_def n
    by (simp add: classify_salt c f h fmt)
qed

lemma match_candidate_salt_2kg:
  "mc \<le> 1 / 2 \<Longrightarrow>
   match_candidate unit_externals tie_store (named_product 1 ''Tata Salt 1kg'') mc
     (named_product 2 ''Tata Salt 2kg'')
   = Inr (Some \<lparr>primary_id = 1, matched_id = 2, confidence = 1 / 2,
                  match_type = ''substitute'', size_similarity = 3 / 10,
                  warnings = [''Significant size mismatch: #g vs #g'']\<rparr>)"
proof -
  have s: "calculate_size_similarity (extract_size ''Tata Salt 1kg'') (extract_size ''Tata Salt 2kg'')
           = 3 / 10" by code_simp
  show "mc \<le> 1 / 2 \<Longrightarrow> ?thesis"
    unfolding match_candidate_def confidence_salt_2kg
    by (simp add: get_id_def get_name_def named_product_def s)
qed

lemma match_candidate_butter:
  "0 < mc \<Longrightarrow>
   match_candidate unit_externals tie_store (named_product 1 ''Tata Salt 1kg'') mc
     (named_product 6 ''Amul Butter'') = Inr None"
  unfolding match_candidate_def confidence_butter
  by (simp add: get_id_def get_name_def named_product_def)

lemma collect_salt_mixed:
  assumes "0 < mc" "mc \<le> 1 / 2"
  shows "collect_matches unit_externals tie_store (named_product 1 ''Tata Salt 1kg'') mc
     [named_product 2 ''Tata Salt 2kg'', named_product 3 ''Tata Salt 1kg'',
      named_product 1 ''Tata Salt 1kg'', named_product 6 ''Amul Butter'',
      named_product 4 ''Tata Salt 1kg'', named_product 5 ''Tata Salt 1kg'']
   = Inr [\<lparr>primary_id = 1, matched_id = 2, confidence = 1 / 2,
             match_type = ''substitute'', size_similarity = 3 / 10,
             warnings = [''Significant size mismatch: #g vs #g'']\<rparr>,
          \<lparr>primary_id = 1, matched_id = 3, confidence = 1, match_type = ''exact'',
             size_similarity = 1, warnings = []\<rparr>,
          \<lparr>primary_id = 1, matched_id = 4, confidence = 1, match_type = ''exact'',
             size_similarity = 1, warnings = []\<rparr>,
          \<lparr>primary_id = 1, matched_id = 5, confidence = 1, match_type = ''exact'',
             size_similarity = 1, warnings = []\<rparr>]"
proof -
  from assms have "mc \<le> 1" by simp
  with assms show ?thesis
    by (simp add: match_candidate_salt match_candidate_salt_2kg match_candidate_butter)
qed

lemma sort_salt_mixed:
  "sort_by_confidence
     [\<lparr>primary_id = 1, matched_id = 2, confidence = 1 / 2,
        match_type = ''substitute'', size_similarity = 3 / 10,
        warnings = [''Significant size mismatch: #g vs #g'']\<rparr>,
      \<lparr>primary_id = 1, matched_id = 3, confidence = 1, match_type = ''exact'',
        size_similarity = 1, warnings = []\<rparr>,
      \<lparr>primary_id = 1, matched_id = 4, confidence = 1, match_type = ''exact'',
        size_similarity = 1, warnings = []\<rparr>,
      \<lparr>primary_id = 1, matched_id = 5, confidence = 1, match_type = ''exact'',
        size_similarity = 1, warnings = []\<rparr>]
   = [\<lparr>primary_id = 1, matched_id = 3, confidence = 1, match_type = ''exact'',
        size_similarity = 1, warnings = []\<rparr>,
      \<lparr>primary_id = 1, matched_id = 4, confidence = 1, match_type = ''exact'',
        size_similarity = 1, warnings = []\<rparr>,
      \<lparr>primary_id = 1, matched_id = 5, confidence = 1, match_type = ''exact'',
        size_similarity = 1, warnings = []\<rparr>,
      \<lparr>primary_id = 1, matched_id = 2, confidence = 1 / 2,
        match_type = ''substitute'', size_similarity = 3 / 10,
        warnings = [''Significant size mismatch: #g vs #g'']\<rparr>]"
  by (simp add: sort_by_confidence_def)

theorem find_matches_result_witness:
  "collect_matches unit_externals tie_store (named_product 1 ''Tata Salt 1kg'') 0.4
     [named_product 2 ''Tata Salt 2kg'', named_product 3 ''Tata Salt 1kg'',
      named_product 1 ''Tata Salt 1kg'', named_product 6 ''Amul Butter'',
      named_product 4 ''Tata Salt 1kg'', named_product 5 ''Tata Salt 1kg'']
   = Inr [\<lparr>primary_id = 1, matched_id = 2, confidence = 1 / 2,
             match_type = ''substitute'', size_similarity = 3 / 10,
             warnings = [''Significant size mismatch: #g vs #g'']\<rparr>,
          \<lparr>primary_id = 1, matched_id = 3, confidence = 1, match_type = ''exact'',
             size_similarity = 1, warnings = []\<rparr>,
          \<lparr>primary_id = 1, matched_id = 4, confidence = 1, match_type = ''exact'',
             size_similarity = 1, warnings = []\<rparr>,
          \<lparr>primary_id = 1, matched_id = 5, confidence = 1, match_type = ''exact'',
             size_similarity = 1, warnings = []\<rparr>]
   \<and> find_matches unit_externals tie_store (named_product 1 ''Tata Salt 1kg'')
       [named_product 2 ''Tata Salt 2kg'', named_product 3 ''Tata Salt 1kg'',
        named_product 1 ''Tata Salt 1kg'', named_product 6 ''Amul Butter'',
        named_product 4 ''Tata Salt 1kg'', named_product 5 ''Tata Salt 1kg''] 0.4 2
     = Inr [\<lparr>primary_id = 1, matched_id = 3, confidence = 1, match_type = ''exact'',
               size_similarity = 1, warnings = []\<rparr>,
            \<lparr>primary_id = 1, matched_id = 4, confidence = 1, match_type = ''exact'',
               size_similarity = 1, warnings = []\<rparr>]
   \<and> int (length [\<lparr>primary_id = 1, matched_id = 3, confidence = 1, match_type = ''exact'',
                     size_similarity = 1, warnings = []\<rparr>,
                   \<lparr>primary_id = 1, matched_id = 4, confidence = 1, match_type = ''exact'',
                     size_similarity = 1, warnings = []\<rparr>]) \<le> 2
   \<and> list_all (\<lambda>x. Some (matched_id x) \<noteq> p_id (named_product 1 ''Tata Salt 1kg'')
                    \<and> 0.4 \<le> confidence x)
        [\<lparr>primary_id = 1, matched_id = 3, confidence = 1, match_type = ''exact'',
           size_similarity = 1, warnings = []\<rparr>,
         \<lparr>primary_id = 1, matched_id = 4, confidence = 1, match_type = ''exact'',
           size_similarity = 1, warnings = []\<rparr>]
   \<and> sorted_wrt (\<lambda>a b. confidence a \<ge> confidence b)
        [\<lparr>primary_id = 1, matched_id = 3, confidence = 1, match_type = ''exact'',
           size_similarity = 1, warnings = []\<rparr>,
         \<lparr>primary_id = 1, matched_id = 4, confidence = 1, match_type = ''exact'',
           size_similarity = 1, warnings = []\<rparr>]"
proof -
  let ?p = "named_product 1 ''Tata Salt 1kg''"
  let ?cs = "[named_product 2 ''Tata Salt 2kg'', named_product 3 ''Tata Salt 1kg'',
      named_product 1 ''Tata Salt 1kg'', named_product 6 ''Amul Butter'',
      named_product 4 ''Tata Salt 1kg'', named_product 5 ''Tata Salt 1kg'']"
  let ?res = "[\<lparr>primary_id = 1, matched_id = 3, confidence = 1, match_type = ''exact'',
               size_similarity = 1, warnings = []\<rparr>,
            \<lparr>primary_id = 1, matched_id = 4, confidence = 1, match_type = ''exact'',
               size_similarity = 1, warnings = []\<rparr>]"
  have c: "collect_matches unit_externals tie_store ?p 0.4 ?cs
   = Inr [\<lparr>primary_id = 1, matched_id = 2, confidence = 1 / 2,
             match_type = ''substitute'', size_similarity = 3 / 10,
             warnings = [''Significant size mismatch: #g vs #g'']\<rparr>,
          \<lparr>primary_id = 1, matched_id = 3, confidence = 1, match_type = ''exact'',
             size_similarity = 1, warnings = []\<rparr>,
          \<lparr>primary_id = 1, matched_id = 4, confidence = 1, match_type = ''exact'',
             size_similarity = 1, warnings = []\<rparr>,
          \<lparr>primary_id = 1, matched_id = 5, confidence = 1, match_type = ''exact'',
             size_similarity = 1, warnings = []\<rparr>]"
    by (rule collect_salt_mixed) simp_all
  have ev: "find_matches unit_externals tie_store ?p ?cs 0.4 2 = Inr ?res"
    unfolding find_matches_def c by (simp add: sort_salt_mixed slice_to_def)
  from find_matches_result[of ?p ?cs unit_externals tie_store "0.4" "2" ?res] ev
  have "(0 \<le> (2::int) \<longrightarrow> int (length ?res) \<le> 2)
        \<and> (\<forall>x\<in>set ?res. Some (matched_id x) \<noteq> p_id ?p \<and> 0.4 \<le> confidence x)
        \<and> sorted_wrt (\<lambda>a b. confidence a \<ge> confidence b) ?res"
    by blast
  then have "int (length ?res) \<le> 2
        \<and> list_all (\<lambda>x. Some (matched_id x) \<noteq> p_id ?p \<and> 0.4 \<le> confidence x) ?res
        \<and> sorted_wrt (\<lambda>a b. confidence a \<ge> confidence b) ?res"
    unfolding list_all_iff by linarith
  with c ev show ?thesis by blast
qed

section \<open>Batches\<close>

lemma collect_matches_raises:
  assumes "candidate \<in> set candidates"
    and "match_candidate ext m primary min_confidence candidate = Inl e"
  shows "\<exists>e'. collect_matches ext m primary min_confidence candidates = Inl e'"
  using assms(1)
proof (induction candidates)
  case Nil
  then show ?case by simp
next
  case (Cons c cs)
  show ?case
  proof (cases "match_candidate ext m primary min_confidence c")
    case (Inl e1)
    then show ?thesis by simp
  next
    case (Inr r)
    with assms(2) have "candidate \<noteq> c" by auto
    with Cons obtain e' where "collect_matches ext m primary min_confidence cs = Inl e'" by auto
    with Inr show ?thesis by simp
  qed
qed

lemma batch_match_raises:
  assumes "primary \<in> set primaries"
    and "find_matches ext m primary candidates min_confidence 3 = Inl e"
  shows "\<exists>e'. batch_match ext m primaries candidates min_confidence = Inl e'"
  using assms(1)
proof (induction primaries)
  case Nil
  then show ?case by simp
next
  case (Cons p ps)
  show ?case
  proof (cases "find_matches ext m p candidates min_confidence 3")
    case (Inl e1)
    then show ?thesis by simp
  next
    case (Inr ms)
    with assms(2) have "primary \<noteq> p" by auto
    with Cons obtain e' where "batch_match ext m ps candidates min_confidence = Inl e'" by auto
    with Inr show ?thesis by simp
  qed
qed

text \<open>
  Claim C8, as the code has it. \<open>batch_match\<close> and \<open>find_matches\<close> have no handler: when the
  body of the loop raises for one pair of a primary and a candidate, \<open>batch_match\<close> raises
  and returns no matches.
\<close>

theorem batch_match_propagates:
  assumes "primary \<in> set primaries" "candidate \<in> set candidates"
    and "match_candidate ext m primary min_confidence candidate = Inl e"
  shows "\<exists>e'. batch_match ext m primaries candidates min_confidence = Inl e'"
proof -
  from collect_matches_raises[OF assms(2,3)] obtain e1 where
    "collect_matches ext m primary min_confidence candidates = Inl e1" by blast
  then have "find_matches ext m primary candidates min_confidence 3 = Inl e1"
    by (simp add: find_matches_def)
  from batch_match_raises[OF assms(1) this] show ?thesis .
qed

lemma match_candidate_nameless:
  "i \<noteq> j \<Longrightarrow>
   match_candidate ext m (named_product i n) min_confidence (nameless_product j)
     = Inl (KeyError ''name'')"
  by (simp add: match_candidate_def calculate_confidence_def get_id_def get_name_def
      named_product_def nameless_product_def)

text \<open>
  The second candidate would be an exact match of the primary; the first has no name,
  and the batch ends with its \<open>KeyError\<close>.
\<close>

theorem batch_match_abort_counterexample:
  "batch_match unit_externals tie_store [named_product 1 ''Tata Salt 1kg'']
     [nameless_product 2, named_product 3 ''Tata Salt 1kg''] 0.65
   = Inl (KeyError ''name'')
   \<and> batch_match unit_externals tie_store [named_product 1 ''Tata Salt 1kg'']
       [named_product 3 ''Tata Salt 1kg''] 0.65
     = Inr [\<lparr>primary_id = 1, matched_id = 3, confidence = 1, match_type = ''exact'',
               size_similarity = 1, warnings = []\<rparr>]"
proof -
  have a: "match_candidate unit_externals tie_store (named_product 1 ''Tata Salt 1kg'') 0.65
             (nameless_product 2) = Inl (KeyError ''name'')"
    by (rule match_candidate_nameless) simp
  have b: "match_candidate unit_externals tie_store (named_product 1 ''Tata Salt 1kg'') 0.65
             (named_product 3 ''Tata Salt 1kg'')
           = Inr (Some \<lparr>primary_id = 1, matched_id = 3, confidence = 1, match_type = ''exact'',
                          size_similarity = 1, warnings = []\<rparr>)"
    using match_candidate_salt[of "0.65" 3] by simp
  have c1: "collect_matches unit_externals tie_store (named_product 1 ''Tata Salt 1kg'') 0.65
              [nameless_product 2, named_product 3 ''Tata Salt 1kg''] = Inl (KeyError ''name'')"
    unfolding collect_matches.simps a by simp
  have c2: "collect_matches unit_externals tie_store (named_product 1 ''Tata Salt 1kg'') 0.65
              [named_product 3 ''Tata Salt 1kg'']
            = Inr [\<lparr>primary_id = 1, matched_id = 3, confidence = 1, match_type = ''exact'',
                      size_similarity = 1, warnings = []\<rparr>]"
    unfolding collect_matches.simps b by simp
  show ?thesis
    unfolding batch_match.simps find_matches_def c1 c2
    by (simp add: sort_by_confidence_def slice_to_def)
qed

theorem batch_match_propagates_witness:
  "\<exists>e'. batch_match unit_externals tie_store [named_product 1 ''Tata Salt 1kg'']
          [nameless_product 2, named_product 3 ''Tata Salt 1kg''] 0.65 = Inl e'"
proof -
  have a: "match_candidate unit_externals tie_store (named_product 1 ''Tata Salt 1kg'') 0.65
             (nameless_product 2) = Inl (KeyError ''name'')"
    by (rule match_candidate_nameless) simp
  show ?thesis
    by (rule batch_match_propagates[OF _ _ a]) simp_all
qed
end
